theory Spec2Isabelle
  imports Main "HOL-Library.Word" "HOL-Library.Extended_Nat"
begin

section \<open>The command API of the ESP core (esp.c)\<close>

subsection \<open>Data model\<close>

text \<open>
  Result codes. \<^verbatim>\<open>esp.c\<close> itself only produces \<open>espOK\<close> and \<open>espERR\<close>; the
  remaining members are the kinds the pipeline may store into a message
  (the enumeration is declared in a header that is not part of the sources at hand).
\<close>

datatype espr_t =
    espOK | espERR | espPARERR | espERRMEM | espTIMEOUT | espCONT
  | espCLOSED | espINPROG | espNOTENABLED | espNODEVICE | espCONNFAIL

text \<open>
  Command codes named by \<^verbatim>\<open>esp.c\<close>. \<open>ESP_CMD_IDLE\<close> stands for the zero value a
  freshly allocated (zero-filled) message holds in its \<open>cmd\<close> and \<open>cmd_def\<close> fields;
  it is what the test \<^verbatim>\<open>if (!msg->cmd)\<close> recognises.
\<close>

datatype esp_cmd_t =
    ESP_CMD_IDLE
  | ESP_CMD_RESET
  | ESP_CMD_UART
  | ESP_CMD_WIFI_CWMODE
  | ESP_CMD_WIFI_CWJAP
  | ESP_CMD_WIFI_CWQAP
  | ESP_CMD_WIFI_CWLAP
  | ESP_CMD_WIFI_CIPSTA_GET
  | ESP_CMD_WIFI_CIPSTA_SET
  | ESP_CMD_WIFI_CIPAP_GET
  | ESP_CMD_WIFI_CIPAP_SET
  | ESP_CMD_WIFI_CIPSTAMAC_GET
  | ESP_CMD_WIFI_CIPSTAMAC_SET
  | ESP_CMD_WIFI_CIPAPMAC_GET
  | ESP_CMD_WIFI_CIPAPMAC_SET
  | ESP_CMD_TCPIP_CIPMUX
  | ESP_CMD_TCPIP_CIPDINFO
  | ESP_CMD_TCPIP_CIPSERVER
  | ESP_CMD_TCPIP_CIPSTART
  | ESP_CMD_TCPIP_CIPCLOSE
  | ESP_CMD_TCPIP_CIPSEND
  | ESP_CMD_TCPIP_CIPSTATUS

datatype esp_mode_t = ESP_MODE_STA | ESP_MODE_AP | ESP_MODE_STA_AP

datatype esp_conn_type_t = ESP_CONN_TYPE_TCP | ESP_CONN_TYPE_UDP | ESP_CONN_TYPE_SSL

text \<open>
  Pointers that the API only stores into the message (a connection handle, an output
  location, a callback) are represented by natural-number identities; a pointer that
  may be \<^verbatim>\<open>NULL\<close> is an \<open>option\<close>.
\<close>

type_synonym ptr = nat

text \<open>The command specific parameter union \<^verbatim>\<open>msg.msg\<close>, one constructor per member used.\<close>

datatype esp_msg_params =
    msg_none
  | msg_tcpip_dinfo "8 word"
  | msg_wifi_mode esp_mode_t
  | msg_sta_join "8 word" string "string option" "8 word list option"
  | msg_uart "32 word"
  | msg_tcpip_mux "8 word"
  | msg_tcpip_server "16 word"
  | msg_conn_start ptr esp_conn_type_t string "16 word" "ptr option"
  | msg_conn_close ptr
  | msg_conn_send ptr string nat ptr

datatype process_fn = fn_unset | espi_initiate_cmd

record esp_msg_t =
  cmd_def :: esp_cmd_t
  cmd :: esp_cmd_t
  msg :: esp_msg_params
  res :: espr_t
  block_time :: "32 word"
  fn :: process_fn
  has_sem :: bool

text \<open>\<^verbatim>\<open>ESP_MSG_VAR_ALLOC\<close> hands out a zero-filled message.\<close>

definition msg_zero :: esp_msg_t where
  "msg_zero = \<lparr> cmd_def = ESP_CMD_IDLE, cmd = ESP_CMD_IDLE, msg = msg_none, res = espOK,
                 block_time = 0, fn = fn_unset, has_sem = False \<rparr>"

text \<open>
  The calls into the system port (\<^verbatim>\<open>esp_sys_*\<close>) and the message release
  that one API call performs, in order; \<open>Sem_wait t\<close> records the timeout argument.
\<close>

datatype sys_call =
    Sem_create
  | Mbox_put
  | Mbox_putnow
  | Sem_wait "32 word"
  | Sem_delete
  | Msg_free

text \<open>
  The global \<^verbatim>\<open>esp\<close> record, as far as \<^verbatim>\<open>esp.c\<close> touches it: the producer
  mailbox (messages posted and not yet fetched, oldest first) with its capacity, the two
  callback slots, and the log of system calls.
\<close>

record esp_t =
  mbox_producer :: "esp_msg_t list"
  mbox_producer_size :: nat
  cb_func :: "ptr option"
  cb_server :: "ptr option"
  init_finished :: bool
  sys_log :: "sys_call list"

text \<open>
  What the surroundings decide during one API call: whether the message allocation and
  the semaphore creation succeed, what \<^verbatim>\<open>esp_sys_sem_wait\<close> returns (\<open>None\<close> is
  \<^verbatim>\<open>ESP_SYS_TIMEOUT\<close>, \<open>Some t\<close> the elapsed time), and the result code the pipeline
  has stored in the message by the time the semaphore is released.
\<close>

record call_env =
  alloc_ok :: bool
  sem_create_ok :: bool
  sem_wait_ret :: "32 word option"
  pipeline_res :: espr_t

text \<open>
  Modelled from the spec: \<^verbatim>\<open>esp_sys_mbox_putnow\<close> and \<^verbatim>\<open>esp_sys_mbox_put\<close> belong to
  the system port, which is not among the sources. The non-blocking variant fails when
  the queue is full; the blocking variant waits for room and then posts, the producer
  thread that makes room being outside this sequential model.
\<close>

definition esp_sys_mbox_putnow :: "esp_msg_t \<Rightarrow> esp_t \<Rightarrow> bool \<times> esp_t" where
  "esp_sys_mbox_putnow m e =
     (if length (mbox_producer e) < mbox_producer_size e
      then (True, e\<lparr>mbox_producer := mbox_producer e @ [m], sys_log := sys_log e @ [Mbox_putnow]\<rparr>)
      else (False, e\<lparr>sys_log := sys_log e @ [Mbox_putnow]\<rparr>))"

definition esp_sys_mbox_put :: "esp_msg_t \<Rightarrow> esp_t \<Rightarrow> esp_t" where
  "esp_sys_mbox_put m e =
     e\<lparr>mbox_producer := mbox_producer e @ [m], sys_log := sys_log e @ [Mbox_put]\<rparr>"

definition sys_call_log :: "sys_call list \<Rightarrow> esp_t \<Rightarrow> esp_t" where
  "sys_call_log cs e = e\<lparr>sys_log := sys_log e @ cs\<rparr>"

subsection \<open>send_msg_to_producer_queue\<close>

text \<open>
  The function follows the source statement by statement. In the blocking case the
  message is handed to the mailbox with \<^verbatim>\<open>esp_sys_mbox_put\<close> and the caller then
  waits with \<^verbatim>\<open>esp_sys_sem_wait(&msg->sem, 0000)\<close>: the timeout argument is the
  literal zero, whatever \<open>block_time\<close> is.
\<close>

definition send_msg_to_producer_queue ::
  "call_env \<Rightarrow> esp_msg_t \<Rightarrow> process_fn \<Rightarrow> 32 word \<Rightarrow> esp_t \<Rightarrow> espr_t \<times> esp_t" where
  "send_msg_to_producer_queue env m0 process_fn blk e0 =
     (let m1 = m0\<lparr>res := espOK\<rparr> in
      if blk \<noteq> 0 \<and> \<not> sem_create_ok env
      then (espERR, sys_call_log [Sem_create, Msg_free] e0)
      else
        let e1 = (if blk \<noteq> 0 then sys_call_log [Sem_create] e0 else e0);
            m2 = (if blk \<noteq> 0 then m1\<lparr>has_sem := True\<rparr> else m1);
            m3 = (if cmd m2 = ESP_CMD_IDLE then m2\<lparr>cmd := cmd_def m2\<rparr> else m2);
            m4 = m3\<lparr>block_time := blk, fn := process_fn\<rparr>
        in
          if blk \<noteq> 0 then
            (let e2 = esp_sys_mbox_put m4 e1;
                 e3 = sys_call_log [Sem_wait 0] e2;
                 r = (case sem_wait_ret env of None \<Rightarrow> espERR | Some t \<Rightarrow> pipeline_res env)
             in (r, sys_call_log [Sem_delete, Msg_free] e3))
          else
            (case esp_sys_mbox_putnow m4 e1 of
               (True, e2) \<Rightarrow> (espOK, e2)
             | (False, e2) \<Rightarrow> (espERR, e2)))"

subsection \<open>The API functions\<close>

text \<open>
  Every API function has the same shape: allocate a message, fill in the definitive
  command and the parameters, and pass it on.

  Modelled from the spec: the macro \<^verbatim>\<open>ESP_MSG_VAR_ALLOC\<close> is defined in a header that
  is not among the sources. Following the error-propagation rule of the specification,
  a failed allocation makes the API function return \<open>espERR\<close> at once, with nothing
  enqueued.
\<close>

definition api_call ::
  "call_env \<Rightarrow> (esp_msg_t \<Rightarrow> esp_msg_t) \<Rightarrow> 32 word \<Rightarrow> esp_t \<Rightarrow> espr_t \<times> esp_t" where
  "api_call env fill blocking e =
     (if \<not> alloc_ok env then (espERR, e)
      else send_msg_to_producer_queue env (fill msg_zero) espi_initiate_cmd blocking e)"

definition espi_set_dinfo :: "call_env \<Rightarrow> 8 word \<Rightarrow> 32 word \<Rightarrow> esp_t \<Rightarrow> espr_t \<times> esp_t" where
  "espi_set_dinfo env info blocking =
     api_call env (\<lambda>m. m\<lparr>cmd_def := ESP_CMD_TCPIP_CIPDINFO, msg := msg_tcpip_dinfo info\<rparr>) blocking"

definition esp_reset :: "call_env \<Rightarrow> 32 word \<Rightarrow> esp_t \<Rightarrow> espr_t \<times> esp_t" where
  "esp_reset env blocking =
     api_call env (\<lambda>m. m\<lparr>cmd_def := ESP_CMD_RESET\<rparr>) blocking"

definition esp_set_wifi_mode :: "call_env \<Rightarrow> esp_mode_t \<Rightarrow> 32 word \<Rightarrow> esp_t \<Rightarrow> espr_t \<times> esp_t" where
  "esp_set_wifi_mode env mode blocking =
     api_call env (\<lambda>m. m\<lparr>cmd_def := ESP_CMD_WIFI_CWMODE, msg := msg_wifi_mode mode\<rparr>) blocking"

definition esp_sta_quit :: "call_env \<Rightarrow> 32 word \<Rightarrow> esp_t \<Rightarrow> espr_t \<times> esp_t" where
  "esp_sta_quit env blocking =
     api_call env (\<lambda>m. m\<lparr>cmd_def := ESP_CMD_WIFI_CWQAP\<rparr>) blocking"

definition esp_sta_join ::
  "call_env \<Rightarrow> string \<Rightarrow> string option \<Rightarrow> 8 word list option \<Rightarrow> 8 word \<Rightarrow> 32 word \<Rightarrow> esp_t
     \<Rightarrow> espr_t \<times> esp_t" where
  "esp_sta_join env name pass mac def blocking =
     api_call env (\<lambda>m. m\<lparr>cmd_def := ESP_CMD_WIFI_CWJAP, msg := msg_sta_join def name pass mac\<rparr>)
       blocking"

definition esp_set_at_baudrate :: "call_env \<Rightarrow> 32 word \<Rightarrow> 32 word \<Rightarrow> esp_t \<Rightarrow> espr_t \<times> esp_t" where
  "esp_set_at_baudrate env baud blocking =
     api_call env (\<lambda>m. m\<lparr>cmd_def := ESP_CMD_UART, msg := msg_uart baud\<rparr>) blocking"

definition esp_set_mux :: "call_env \<Rightarrow> 8 word \<Rightarrow> 32 word \<Rightarrow> esp_t \<Rightarrow> espr_t \<times> esp_t" where
  "esp_set_mux env mux blocking =
     api_call env (\<lambda>m. m\<lparr>cmd_def := ESP_CMD_TCPIP_CIPMUX, msg := msg_tcpip_mux mux\<rparr>) blocking"

definition esp_set_server :: "call_env \<Rightarrow> 16 word \<Rightarrow> 32 word \<Rightarrow> esp_t \<Rightarrow> espr_t \<times> esp_t" where
  "esp_set_server env port blocking =
     api_call env (\<lambda>m. m\<lparr>cmd_def := ESP_CMD_TCPIP_CIPSERVER, msg := msg_tcpip_server port\<rparr>) blocking"


definition esp_get_conns_status :: "call_env \<Rightarrow> 32 word \<Rightarrow> esp_t \<Rightarrow> espr_t \<times> esp_t" where
  "esp_get_conns_status env blocking =
     api_call env (\<lambda>m. m\<lparr>cmd_def := ESP_CMD_TCPIP_CIPSTATUS\<rparr>) blocking"

text \<open>
  \<^verbatim>\<open>esp_init\<close>: the mailboxes are created afresh (twenty entries each), then five
  non-blocking commands are issued; their return values are ignored. \<open>envs k\<close> is the
  environment of the \<open>k\<close>-th of these calls. \<open>def_callback\<close> is pointer identity \<open>0\<close>.
\<close>

definition def_callback :: ptr where
  "def_callback = 0"

definition esp_init :: "(nat \<Rightarrow> call_env) \<Rightarrow> ptr option \<Rightarrow> esp_t \<Rightarrow> espr_t \<times> esp_t" where
  "esp_init envs cb e0 =
     (let f = (case cb of Some c \<Rightarrow> c | None \<Rightarrow> def_callback);
          e1 = e0\<lparr>cb_func := Some f, cb_server := Some f,
                  mbox_producer := [], mbox_producer_size := 20\<rparr>;
          e2 = snd (esp_reset (envs 0) 0 e1);
          e3 = snd (esp_set_wifi_mode (envs 1) ESP_MODE_STA 0 e2);
          e4 = snd (esp_set_mux (envs 2) 1 0 e3);
          e5 = snd (espi_set_dinfo (envs 3) 1 0 e4);
          e6 = snd (esp_get_conns_status (envs 4) 0 e5)
      in (espOK, e6\<lparr>init_finished := True\<rparr>))"


text \<open>
  The message that \<^verbatim>\<open>send_msg_to_producer_queue\<close> hands to the mailbox for a message
  prepared by \<open>fill\<close>: result preset to \<open>espOK\<close>, the start command defaulted to the
  definitive one when it was left unset, blocking time and processing function stored.
\<close>

definition queued_msg :: "(esp_msg_t \<Rightarrow> esp_msg_t) \<Rightarrow> 32 word \<Rightarrow> esp_msg_t" where
  "queued_msg fill blk =
     (let m1 = (fill msg_zero)\<lparr>res := espOK\<rparr>;
          m2 = (if blk \<noteq> 0 then m1\<lparr>has_sem := True\<rparr> else m1);
          m3 = (if cmd m2 = ESP_CMD_IDLE then m2\<lparr>cmd := cmd_def m2\<rparr> else m2)
      in m3\<lparr>block_time := blk, fn := espi_initiate_cmd\<rparr>)"

text \<open>
  Modelled from the spec: \<^verbatim>\<open>esp_sys_sem_wait\<close> belongs to the system port, which is not
  among the sources. The call site documents its timeout argument: zero waits forever
  (\<^verbatim>\<open>/* Wait forever for access to semaphore */\<close>); any other value is an upper bound
  on the wait.
\<close>

definition sem_wait_bound :: "32 word \<Rightarrow> enat" where
  "sem_wait_bound t = (if t = 0 then \<infinity> else enat (unat t))"

definition sem_waits :: "sys_call list \<Rightarrow> 32 word list" where
  "sem_waits cs = concat (map (\<lambda>c. case c of Sem_wait t \<Rightarrow> [t] | _ \<Rightarrow> []) cs)"

subsection \<open>The producer side, as far as the specification describes it\<close>

definition CRLF :: string where
  "CRLF = [CHR 0x0D, CHR 0x0A]"

text \<open>
  Modelled from the spec: \<^verbatim>\<open>espi_initiate_cmd\<close>, which formats the AT text of a
  message, is not among the sources. The specification gives the text of the commands of
  its init-and-join scenario: \<^verbatim>\<open>AT+RST\<close>, \<^verbatim>\<open>AT+CWMODE_CUR=1\<close> (station mode),
  \<^verbatim>\<open>AT+CIPMUX=1\<close>, \<^verbatim>\<open>AT+CIPDINFO=1\<close>, \<^verbatim>\<open>AT+CIPSTATUS\<close> and
  \<^verbatim>\<open>AT+CWJAP_CUR="ssid","pw"\<close>; for every other message the model has no text.
  The text is chosen by the message's current command \<open>cmd\<close>.
\<close>

definition at_command :: "esp_msg_t \<Rightarrow> string option" where
  "at_command m =
     (if cmd m = ESP_CMD_RESET then Some ''AT+RST''
      else if cmd m = ESP_CMD_WIFI_CWMODE \<and> msg m = msg_wifi_mode ESP_MODE_STA
        then Some ''AT+CWMODE_CUR=1''
      else if cmd m = ESP_CMD_TCPIP_CIPMUX \<and> msg m = msg_tcpip_mux 1 then Some ''AT+CIPMUX=1''
      else if cmd m = ESP_CMD_TCPIP_CIPDINFO \<and> msg m = msg_tcpip_dinfo 1 then Some ''AT+CIPDINFO=1''
      else if cmd m = ESP_CMD_TCPIP_CIPSTATUS then Some ''AT+CIPSTATUS''
      else if cmd m = ESP_CMD_WIFI_CWJAP then
        (case msg m of
           msg_sta_join d name (Some pass) mac \<Rightarrow>
             Some (''AT+CWJAP_CUR='' @ [CHR 0x22] @ name @ [CHR 0x22] @ '','' @ [CHR 0x22] @ pass
                   @ [CHR 0x22])
         | _ \<Rightarrow> None)
      else None)"

text \<open>
  Modelled from the spec: the producer thread (\<^verbatim>\<open>esp_thread_producer\<close>) is not among
  the sources. Per the specification it takes the messages in enqueue order, has at most
  one in flight, emits the AT text followed by CRLF, and waits for the modem's terminal
  line before it turns to the next message. \<open>modem k\<close> is the terminal line the modem
  sends for the \<open>k\<close>-th command; the result is the exchange on the serial line, or
  \<open>None\<close> when a message has no text in \<open>at_command\<close>.
\<close>

datatype wire = To_modem string | From_modem string

fun producer_run :: "(nat \<Rightarrow> string) \<Rightarrow> nat \<Rightarrow> esp_msg_t list \<Rightarrow> wire list option" where
  "producer_run modem k [] = Some []"
| "producer_run modem k (m # ms) =
     (case at_command m of
        None \<Rightarrow> None
      | Some s \<Rightarrow>
          (case producer_run modem (Suc k) ms of
             None \<Rightarrow> None
           | Some w \<Rightarrow> Some (To_modem (s @ CRLF) # From_modem (modem k) # w)))"

subsection \<open>Concrete surroundings used in the examples\<close>

definition env_ok :: call_env where
  "env_ok = \<lparr>alloc_ok = True, sem_create_ok = True, sem_wait_ret = Some 0, pipeline_res = espOK\<rparr>"

definition env_timeout :: call_env where
  "env_timeout =
     \<lparr>alloc_ok = True, sem_create_ok = True, sem_wait_ret = None, pipeline_res = espOK\<rparr>"

definition esp_fresh :: esp_t where
  "esp_fresh = \<lparr>mbox_producer = [], mbox_producer_size = 20, cb_func = None, cb_server = None,
                 init_finished = False, sys_log = []\<rparr>"

section \<open>The HTTP server (esp_http_server.c)\<close>

subsection \<open>Configuration, files and the user's initialisation structure\<close>

text \<open>
  The configuration macros are defined in a header that is not among the sources; they
  are parameters here. \<open>HTTP_SSI_TAG_START_LEN\<close> and \<open>HTTP_SSI_TAG_END_LEN\<close> are the
  lengths of the two tag delimiters.

  The receive branch of \<^verbatim>\<open>http_evt_cb\<close> only has balanced braces when
  \<^verbatim>\<open>HTTP_SUPPORT_POST\<close> is enabled, so that part is modelled in this shape; the flag
  still decides whether a request line starting with \<^verbatim>\<open>POST\<close> is treated as a POST
  and whether the 405 response lists it.
\<close>

record http_cfg =
  HTTP_MAX_URI_LEN :: nat
  HTTP_MAX_PARAMS :: nat
  HTTP_SSI_TAG_START :: string
  HTTP_SSI_TAG_END :: string
  HTTP_SSI_TAG_MAX_LEN :: nat
  ESP_CFG_CONN_MAX_DATA_LEN :: nat
  HTTP_SUPPORT_POST :: bool
  HTTP_USE_METHOD_NOTALLOWED_RESP :: bool

definition HTTP_SSI_TAG_START_LEN :: "http_cfg \<Rightarrow> nat" where
  "HTTP_SSI_TAG_START_LEN c = length (HTTP_SSI_TAG_START c)"

definition HTTP_SSI_TAG_END_LEN :: "http_cfg \<Rightarrow> nat" where
  "HTTP_SSI_TAG_END_LEN c = length (HTTP_SSI_TAG_END c)"

text \<open>Indexing a C string literal: the position after the last character holds NUL.\<close>

definition c_at :: "string \<Rightarrow> nat \<Rightarrow> char" where
  "c_at s i = (if i < length s then s ! i else CHR 0x00)"

text \<open>
  Subtraction of two \<^verbatim>\<open>size_t\<close> values (32 bits on the targets of this port): a
  negative difference wraps around.
\<close>

definition usub :: "nat \<Rightarrow> nat \<Rightarrow> nat" where
  "usub a b = (if b \<le> a then a - b else a + 2 ^ 32 - b)"

text \<open>
  Modelled from the spec: the file provider (\<^verbatim>\<open>esp_http_server_fs.c\<close>) is not among
  the sources. A file is its content, a read position and the static flag. Reading
  with no buffer returns the number of bytes that remain; reading with a buffer yields
  at most the wanted number of the remaining bytes and advances the position.
\<close>

record http_fs_file_t =
  file_data :: string
  fptr :: nat
  is_static :: bool

definition file_zero :: http_fs_file_t where
  "file_zero = \<lparr>file_data = [], fptr = 0, is_static = False\<rparr>"

definition http_fs_data_read_remaining :: "http_fs_file_t \<Rightarrow> nat" where
  "http_fs_data_read_remaining f = length (file_data f) - fptr f"

definition http_fs_data_read_file :: "http_fs_file_t \<Rightarrow> nat \<Rightarrow> string \<times> http_fs_file_t" where
  "http_fs_data_read_file f btr =
     (let n = min btr (length (file_data f) - fptr f)
      in (take n (drop (fptr f) (file_data f)), f\<lparr>fptr := fptr f + n\<rparr>))"

text \<open>
  The user's structure \<^verbatim>\<open>http_init_t\<close>. A CGI handler receives the parsed parameters
  (name and optional value) and returns the URI to open. The POST callbacks are only
  observed through the calls made to them, so their presence is what matters. The SSI
  callback answers a tag name with the blocks of data it passes, one after the other,
  to \<^verbatim>\<open>esp_http_server_write\<close>.
\<close>

type_synonym http_param_t = "string \<times> string option"

record http_init_t =
  cgi :: "(string \<times> (http_param_t list \<Rightarrow> string)) list option"
  post_start_fn :: bool
  post_data_fn :: bool
  post_end_fn :: bool
  ssi_fn :: "(string \<Rightarrow> string list) option"

subsection \<open>The connection as the server sees it\<close>

text \<open>
  Calls made on the connection, oldest first. A buffered write records who issued it:
  the response pump itself, or \<^verbatim>\<open>esp_http_server_write\<close> on behalf of the user's SSI
  callback.
\<close>

datatype writer = Pump | User

datatype conn_call =
    Conn_write writer string bool
  | Conn_send string
  | Conn_close

datatype user_call =
    Post_start string nat
  | Post_data string
  | Post_end

text \<open>
  The surroundings of the server: configuration, the user's structure \<open>hi\<close> (possibly
  \<^verbatim>\<open>NULL\<close>), which paths the file provider opens, which allocation sizes the heap
  grants, the transmit credit \<^verbatim>\<open>esp_conn_write\<close> reports and the result
  \<^verbatim>\<open>esp_conn_send\<close> returns (both as functions of the calls made on the connection so
  far), whether the state of a new connection can be allocated, and the indeterminate
  value of an uninitialised byte.
\<close>

record http_env =
  cfg :: http_cfg
  hi :: "http_init_t option"
  fs_open :: "string \<Rightarrow> http_fs_file_t option"
  mem_alloc :: "nat \<Rightarrow> bool"
  conn_credit :: "conn_call list \<Rightarrow> nat"
  conn_send_res :: "conn_call list \<Rightarrow> espr_t"
  hs_alloc_ok :: bool
  uninit_ch :: char

datatype http_req_method_t = HTTP_METHOD_NOTALLOWED | HTTP_METHOD_GET | HTTP_METHOD_POST

datatype http_ssi_state_t =
    HTTP_SSI_STATE_WAIT_BEGIN | HTTP_SSI_STATE_BEGIN | HTTP_SSI_STATE_TAG | HTTP_SSI_STATE_END

text \<open>
  One connection of the server: the fields of \<^verbatim>\<open>http_state_t\<close>, together with what
  the state refers to and what outlives it. \<open>hs_valid\<close> tells whether the connection
  argument points to an allocated state (\<^verbatim>\<open>hs != NULL\<close>); \<open>conn_calls\<close> is the
  connection \<^verbatim>\<open>hs->conn\<close>, seen as the calls made on it; \<open>user_calls\<close> are the calls
  made to the user's POST callbacks; \<open>http_uri\<close> is the global scratch array, held as the
  C string it contains. The request chain \<^verbatim>\<open>hs->p\<close> is the field \<open>hs_p\<close>; a packet
  buffer chain is represented by the bytes it holds in order. The tag buffer
  is an array indexed by position. Counters are natural numbers.
\<close>

record http_state_t =
  hs_valid :: bool
  conn_calls :: "conn_call list"
  user_calls :: "user_call list"
  http_uri :: string
  hs_p :: "string option"
  headers_received :: bool
  req_method :: http_req_method_t
  content_length :: nat
  content_received :: nat
  resp_file :: http_fs_file_t
  resp_file_opened :: bool
  buff :: "string option"
  buff_len :: nat
  buff_ptr :: nat
  conn_mem_available :: nat
  written_total :: nat
  sent_total :: nat
  process_resp :: bool
  is_ssi :: bool
  ssi_state :: http_ssi_state_t
  ssi_tag_buff :: "nat \<Rightarrow> char"
  ssi_tag_buff_ptr :: nat
  ssi_tag_buff_written :: nat
  ssi_tag_len :: nat

text \<open>
  \<^verbatim>\<open>esp_mem_calloc\<close> followed by \<^verbatim>\<open>hs->conn = conn\<close>: every field of the state is
  zero; the first member of the method enumeration is taken to be
  \<open>HTTP_METHOD_NOTALLOWED\<close>.
\<close>

definition hs_calloc :: "http_state_t \<Rightarrow> http_state_t" where
  "hs_calloc w =
     \<lparr> hs_valid = True, conn_calls = conn_calls w, user_calls = user_calls w,
       http_uri = http_uri w, hs_p = None, headers_received = False,
       req_method = HTTP_METHOD_NOTALLOWED, content_length = 0, content_received = 0,
       resp_file = file_zero, resp_file_opened = False, buff = None, buff_len = 0,
       buff_ptr = 0, conn_mem_available = 0, written_total = 0, sent_total = 0,
       process_resp = False, is_ssi = False, ssi_state = HTTP_SSI_STATE_WAIT_BEGIN,
       ssi_tag_buff = (\<lambda>i. CHR 0x00), ssi_tag_buff_ptr = 0, ssi_tag_buff_written = 0,
       ssi_tag_len = 0 \<rparr>"

text \<open>
  Modelled from the spec: \<^verbatim>\<open>esp_conn_write\<close> (the buffered write of the connection
  manager) is not among the sources. It takes the bytes it is given and reports the
  transmit credit that is left through its last argument; how much that is is decided by
  the surroundings. \<^verbatim>\<open>esp_conn_send\<close> and \<^verbatim>\<open>esp_conn_close\<close> are seen from the
  server as calls on the connection.
\<close>

definition esp_conn_write :: "http_env \<Rightarrow> writer \<Rightarrow> string \<Rightarrow> bool \<Rightarrow> http_state_t \<Rightarrow> http_state_t" where
  "esp_conn_write env who d flush hs =
     (let calls = conn_calls hs @ [Conn_write who d flush]
      in hs\<lparr>conn_calls := calls, conn_mem_available := conn_credit env calls\<rparr>)"

definition esp_conn_send :: "http_env \<Rightarrow> string \<Rightarrow> http_state_t \<Rightarrow> espr_t \<times> http_state_t" where
  "esp_conn_send env d hs =
     (let calls = conn_calls hs @ [Conn_send d]
      in (conn_send_res env calls, hs\<lparr>conn_calls := calls\<rparr>))"

definition esp_conn_close :: "http_state_t \<Rightarrow> http_state_t" where
  "esp_conn_close hs = hs\<lparr>conn_calls := conn_calls hs @ [Conn_close]\<rparr>"

definition esp_http_server_write :: "http_env \<Rightarrow> string \<Rightarrow> http_state_t \<Rightarrow> http_state_t" where
  "esp_http_server_write env d hs =
     (let hs1 = esp_conn_write env User d False hs
      in hs1\<lparr>written_total := written_total hs1 + length d\<rparr>)"

subsection \<open>Constant tables\<close>

definition http_data_method_not_allowed :: "http_cfg \<Rightarrow> string" where
  "http_data_method_not_allowed c =
     ''HTTP/1.1 405 Method Not Allowed'' @ CRLF
     @ ''Connection: close'' @ CRLF
     @ ''Allow: GET'' @ (if HTTP_SUPPORT_POST c then '', POST'' else [])
     @ CRLF @ CRLF"

text \<open>
  In the source the second and third literal of the index table are not separated by a
  comma, so the compiler joins them: the table has four entries.
\<close>

definition http_index_filenames :: "string list" where
  "http_index_filenames =
     [''/index.shtml'', ''/index.shtm'' @ ''/index.ssi'', ''/index.html'', ''/index.htm'']"

definition http_ssi_suffixes :: "string list" where
  "http_ssi_suffixes = [''.shtml'', ''.shtm'', ''.ssi'']"

definition http_404_uris :: "string list" where
  "http_404_uris = [''/404.shtml'', ''/404.shtm'', ''/404.ssi'', ''/404.html'', ''/404.htm'']"

subsection \<open>Strings and packet buffers\<close>

definition tolower_c :: "char \<Rightarrow> char" where
  "tolower_c c =
     (if 65 \<le> (of_char c :: nat) \<and> (of_char c :: nat) \<le> 90 then char_of (of_char c + 32 :: nat) else c)"

text \<open>\<^verbatim>\<open>strcmpi(a, b) == 0\<close>: the two C strings agree up to the case of letters.\<close>

definition strcmpi_eq :: "string \<Rightarrow> string \<Rightarrow> bool" where
  "strcmpi_eq a b = (map tolower_c a = map tolower_c b)"

text \<open>The C string stored in an array: the bytes before the first NUL.\<close>

definition cstr :: "string \<Rightarrow> string" where
  "cstr s = takeWhile (\<lambda>c. c \<noteq> CHR 0x00) s"

text \<open>\<^verbatim>\<open>strchr\<close> on a C string: the position of the first occurrence.\<close>

fun strchr :: "string \<Rightarrow> char \<Rightarrow> nat option" where
  "strchr [] c = None"
| "strchr (x # xs) c = (if x = c then Some 0 else map_option Suc (strchr xs c))"

text \<open>
  Modelled from the spec: the packet buffer operations (\<^verbatim>\<open>esp_pbuf.c\<close>) are not among
  the sources. On the bytes of a chain, \<open>strfind\<close> returns the first index not below
  \<open>from\<close> at which the needle matches (\<open>None\<close> is the not-found sentinel), \<open>strcmp\<close>
  compares the bytes at an offset with a string, \<open>get_at\<close> returns the byte at an index
  or fails.
\<close>

fun strfind0 :: "string \<Rightarrow> string \<Rightarrow> nat option" where
  "strfind0 [] n = None"
| "strfind0 (c # cs) n =
     (if take (length n) (c # cs) = n then Some 0 else map_option Suc (strfind0 cs n))"

definition esp_pbuf_strfind :: "string \<Rightarrow> string \<Rightarrow> nat \<Rightarrow> nat option" where
  "esp_pbuf_strfind pb n from = map_option (\<lambda>i. i + from) (strfind0 (drop from pb) n)"

definition esp_pbuf_strcmp_eq :: "string \<Rightarrow> string \<Rightarrow> nat \<Rightarrow> bool" where
  "esp_pbuf_strcmp_eq pb s off = (take (length s) (drop off pb) = s)"

definition esp_pbuf_get_at :: "string \<Rightarrow> nat \<Rightarrow> char option" where
  "esp_pbuf_get_at pb i = (if i < length pb then Some (pb ! i) else None)"

subsection \<open>Parsing the request line and the query string\<close>

text \<open>
  \<^verbatim>\<open>http_parse_uri\<close>: the result and the new content of the global \<open>http_uri\<close>
  (unchanged on failure). The length \<^verbatim>\<open>pos_e - pos_s - 1\<close> is an unsigned
  difference.
\<close>

definition http_parse_uri :: "http_cfg \<Rightarrow> string \<Rightarrow> string \<Rightarrow> espr_t \<times> string" where
  "http_parse_uri c pb uri0 =
     (case esp_pbuf_strfind pb '' '' 0 of
        None \<Rightarrow> (espERR, uri0)
      | Some pos_s \<Rightarrow>
          if pos_s \<noteq> 3 \<and> pos_s \<noteq> 4 then (espERR, uri0)
          else
            (case esp_pbuf_strfind pb CRLF 0 of
               None \<Rightarrow> (espERR, uri0)
             | Some pos_crlf \<Rightarrow>
                 (let pos_e = (case esp_pbuf_strfind pb '' '' (pos_s + 1) of
                                 None \<Rightarrow> pos_crlf | Some e \<Rightarrow> e);
                      uri_len = usub (usub pos_e pos_s) 1
                  in if uri_len > HTTP_MAX_URI_LEN c then (espERR, uri0)
                     else (espOK, cstr (take uri_len (drop (pos_s + 1) pb))))))"

text \<open>
  \<^verbatim>\<open>http_get_params\<close>: the entries written to \<open>http_params\<close>, whose number is the
  return value. \<open>n\<close> counts the free entries of the array; the argument is the rest of
  the query string. Each round cuts the string at the next \<^verbatim>\<open>&\<close> and the current
  parameter at its first \<^verbatim>\<open>=\<close>.
\<close>

fun http_get_params_loop :: "nat \<Rightarrow> string \<Rightarrow> http_param_t list" where
  "http_get_params_loop 0 params = []"
| "http_get_params_loop (Suc n) params =
     (let amp = strchr params (CHR ''&'');
          cur = (case amp of Some i \<Rightarrow> take i params | None \<Rightarrow> params);
          param = (case strchr cur (CHR ''='') of
                     Some j \<Rightarrow> (take j cur, Some (drop (Suc j) cur))
                   | None \<Rightarrow> (cur, None))
      in param # (case amp of
                    Some i \<Rightarrow> http_get_params_loop n (drop (Suc i) params)
                  | None \<Rightarrow> []))"

definition http_get_params :: "http_cfg \<Rightarrow> string option \<Rightarrow> http_param_t list" where
  "http_get_params c params =
     (case params of None \<Rightarrow> [] | Some s \<Rightarrow> http_get_params_loop (HTTP_MAX_PARAMS c) s)"

subsection \<open>Choosing the response file\<close>

text \<open>
  Opening a file through the provider: on success the file structure is filled in.
\<close>

definition http_fs_data_open_file :: "http_env \<Rightarrow> string \<Rightarrow> http_state_t \<Rightarrow> http_state_t" where
  "http_fs_data_open_file env path hs =
     (case fs_open env path of
        Some f \<Rightarrow> hs\<lparr>resp_file := f, resp_file_opened := True\<rparr>
      | None \<Rightarrow> hs\<lparr>resp_file_opened := False\<rparr>)"

text \<open>
  The loops over the index table and over the 404 table. The first tries the entries
  in turn and stops at the first one that opens, returning it as the new URI; the second
  assigns the entry to the URI before it tries to open it.
\<close>

fun probe_index :: "http_env \<Rightarrow> string list \<Rightarrow> string \<Rightarrow> http_state_t \<Rightarrow> string \<times> http_state_t" where
  "probe_index env [] uri hs = (uri, hs)"
| "probe_index env (f # fs) uri hs =
     (let hs1 = http_fs_data_open_file env f hs
      in if resp_file_opened hs1 then (f, hs1) else probe_index env fs uri hs1)"

fun probe_404 :: "http_env \<Rightarrow> string list \<Rightarrow> string \<Rightarrow> http_state_t \<Rightarrow> string \<times> http_state_t" where
  "probe_404 env [] uri hs = (uri, hs)"
| "probe_404 env (f # fs) uri hs =
     (let hs1 = http_fs_data_open_file env f hs
      in if resp_file_opened hs1 then (f, hs1) else probe_404 env fs f hs1)"

text \<open>The CGI table: the first handler whose URI equals the request path rewrites it.\<close>

fun cgi_lookup :: "(string \<times> (http_param_t list \<Rightarrow> string)) list \<Rightarrow> string \<Rightarrow> http_param_t list \<Rightarrow> string" where
  "cgi_lookup [] uri ps = uri"
| "cgi_lookup ((u, handler) # cs) uri ps = (if u = uri then handler ps else cgi_lookup cs uri ps)"

text \<open>The suffix loop: does one of the SSI suffixes end the URI, letter case aside?\<close>

fun ssi_suffix_match :: "string list \<Rightarrow> string \<Rightarrow> bool" where
  "ssi_suffix_match [] uri = False"
| "ssi_suffix_match (suffix # ss) uri =
     (if length suffix < length uri \<and> strcmpi_eq suffix (drop (length uri - length suffix) uri)
      then True else ssi_suffix_match ss uri)"

text \<open>
  \<^verbatim>\<open>http_get_file_from_uri\<close>, called with the global \<open>http_uri\<close> as its argument.
  Cutting the URI at the question mark writes into that array, so the global changes
  with it when the second step runs on the request's own URI.
\<close>

definition http_get_file_from_uri :: "http_env \<Rightarrow> http_state_t \<Rightarrow> http_state_t" where
  "http_get_file_from_uri env hs0 =
     (let uri0 = http_uri hs0;
          hs1 = hs0\<lparr>resp_file := file_zero\<rparr>;
          uri_len = length uri0;
          (uri1, hs2) =
             (if (uri_len = 1 \<and> uri0 ! 0 = CHR ''/'')
                 \<or> (uri_len > 1 \<and> uri0 ! 0 = CHR ''/'' \<and> uri0 ! 1 = CHR ''?'')
              then probe_index env http_index_filenames uri0 hs1
              else (uri0, hs1));
          (uri2, hs3) =
             (if \<not> resp_file_opened hs2 then
                (let q = strchr uri1 (CHR ''?'');
                     path = (case q of Some i \<Rightarrow> take i uri1 | None \<Rightarrow> uri1);
                     req_params = (case q of Some i \<Rightarrow> Some (drop (Suc i) uri1) | None \<Rightarrow> None);
                     params = http_get_params (cfg env) req_params;
                     uri' = (case hi env of
                               Some h \<Rightarrow> (case cgi h of
                                            Some tab \<Rightarrow> cgi_lookup tab path params
                                          | None \<Rightarrow> path)
                             | None \<Rightarrow> path)
                 in (uri', http_fs_data_open_file env uri' (hs2\<lparr>http_uri := path\<rparr>)))
              else (uri1, hs2));
          (uri3, hs4) =
             (if \<not> resp_file_opened hs3 then probe_404 env http_404_uris uri2 hs3
              else (uri2, hs3));
          hs5 = hs4\<lparr>is_ssi := False\<rparr>
      in if resp_file_opened hs5 \<and> ssi_suffix_match http_ssi_suffixes uri3
         then hs5\<lparr>is_ssi := True\<rparr> else hs5)"

subsection \<open>Reading the response file\<close>

text \<open>
  The allocation loop of \<^verbatim>\<open>read_resp_file\<close> (a \<^verbatim>\<open>do ... while ((len >>= 1) > 64)\<close>):
  try to allocate \<open>len\<close> bytes; on success read the file into the buffer and stop
  (an empty read releases the buffer again); on failure halve \<open>len\<close> and go on while
  the halved length is above 64. A fresh buffer has \<open>len\<close> bytes, of which the read
  overwrites the first ones.
\<close>

function alloc_read_loop :: "http_env \<Rightarrow> nat \<Rightarrow> http_state_t \<Rightarrow> http_state_t" where
  "alloc_read_loop env len hs =
     (let hs1 = hs\<lparr>buff_len := len\<rparr> in
      if mem_alloc env len then
        (let (bytes, f) = http_fs_data_read_file (resp_file hs1) len in
         if length bytes = 0 then hs1\<lparr>resp_file := f, buff := None\<rparr>
         else hs1\<lparr>resp_file := f,
                  buff := Some (bytes @ replicate (len - length bytes) (uninit_ch env))\<rparr>)
      else
        (let hs2 = hs1\<lparr>buff := None\<rparr> in
         if len div 2 > 64 then alloc_read_loop env (len div 2) hs2 else hs2))"
  by pat_completeness auto
termination
  by (relation "measure (\<lambda>(env, len, hs). len)") auto

declare alloc_read_loop.simps [simp del]

text \<open>
  The claim's wording of the same loop, for comparison: the sizes requested one after
  the other, starting with \<open>len\<close> and halved after every failure for as long as the
  halved size is above 64.
\<close>

function halving_sizes :: "nat \<Rightarrow> nat list" where
  "halving_sizes len = len # (if len div 2 > 64 then halving_sizes (len div 2) else [])"
  by pat_completeness auto
termination
  by (relation "measure (\<lambda>len. len)") auto

declare halving_sizes.simps [simp del]

text \<open>
  \<^verbatim>\<open>read_resp_file\<close>. Its return value (whether a buffer is set) is not used by its
  callers, which test \<^verbatim>\<open>hs->buff\<close> themselves; the model returns the state.
\<close>

definition read_resp_file :: "http_env \<Rightarrow> http_state_t \<Rightarrow> http_state_t" where
  "read_resp_file env hs =
     (if \<not> resp_file_opened hs then hs
      else
        (let hs1 = hs\<lparr>buff_ptr := 0, buff := None\<rparr>;
             len = http_fs_data_read_remaining (resp_file hs1)
         in if len \<noteq> 0 then
              (if is_static (resp_file hs1) then
                 (let (bytes, f) = http_fs_data_read_file (resp_file hs1) len;
                      hs2 = hs1\<lparr>resp_file := f, buff := Some bytes, buff_len := length bytes\<rparr>
                  in if length bytes = 0 then hs2\<lparr>buff := None\<rparr> else hs2)
               else
                 alloc_read_loop env (min len (ESP_CFG_CONN_MAX_DATA_LEN (cfg env)))
                   (hs1\<lparr>buff_ptr := 0\<rparr>))
            else hs1))"

subsection \<open>Sending with SSI processing\<close>

text \<open>
  The \<^verbatim>\<open>switch\<close> over the SSI state for one byte \<open>ch\<close>: the \<^verbatim>\<open>reset\<close> flag and the
  new state. When the end delimiter is complete the tag name is NUL terminated in the
  buffer and, if the user registered an SSI callback, the callback runs: each block it
  produces goes through \<^verbatim>\<open>esp_http_server_write\<close>.
\<close>

definition ssi_tag_name :: "http_cfg \<Rightarrow> http_state_t \<Rightarrow> string" where
  "ssi_tag_name c hs =
     map (ssi_tag_buff hs) [HTTP_SSI_TAG_START_LEN c ..< HTTP_SSI_TAG_START_LEN c + ssi_tag_len hs]"

definition ssi_put :: "char \<Rightarrow> http_state_t \<Rightarrow> http_state_t" where
  "ssi_put ch hs =
     hs\<lparr>ssi_tag_buff := (ssi_tag_buff hs)(ssi_tag_buff_ptr hs := ch),
        ssi_tag_buff_ptr := ssi_tag_buff_ptr hs + 1\<rparr>"

definition ssi_call_user :: "http_env \<Rightarrow> http_state_t \<Rightarrow> http_state_t" where
  "ssi_call_user env hs =
     (case hi env of
        None \<Rightarrow> hs
      | Some h \<Rightarrow>
          (case ssi_fn h of
             None \<Rightarrow> hs
           | Some f \<Rightarrow> fold (esp_http_server_write env) (f (ssi_tag_name (cfg env) hs)) hs))"

definition ssi_switch :: "http_env \<Rightarrow> char \<Rightarrow> http_state_t \<Rightarrow> bool \<times> http_state_t" where
  "ssi_switch env ch hs =
     (let c = cfg env; start_len = HTTP_SSI_TAG_START_LEN c; end_len = HTTP_SSI_TAG_END_LEN c in
      case ssi_state hs of
        HTTP_SSI_STATE_WAIT_BEGIN \<Rightarrow>
          if ch = c_at (HTTP_SSI_TAG_START c) 0
          then (False, hs\<lparr>ssi_tag_buff := (ssi_tag_buff hs)(0 := ch), ssi_tag_buff_ptr := 1,
                          ssi_state := HTTP_SSI_STATE_BEGIN\<rparr>)
          else (True, hs)
      | HTTP_SSI_STATE_BEGIN \<Rightarrow>
          if ssi_tag_buff_ptr hs < start_len \<and> ch = c_at (HTTP_SSI_TAG_START c) (ssi_tag_buff_ptr hs)
          then
            (let hs1 = ssi_put ch hs in
             if ssi_tag_buff_ptr hs1 = start_len
             then (False, hs1\<lparr>ssi_state := HTTP_SSI_STATE_TAG, ssi_tag_len := 0\<rparr>)
             else (False, hs1))
          else (True, hs)
      | HTTP_SSI_STATE_TAG \<Rightarrow>
          if ch = c_at (HTTP_SSI_TAG_END c) 0
          then (False, (ssi_put ch hs)\<lparr>ssi_state := HTTP_SSI_STATE_END\<rparr>)
          else if usub (ssi_tag_buff_ptr hs) start_len < HTTP_SSI_TAG_MAX_LEN c
          then (False, (ssi_put ch hs)\<lparr>ssi_tag_len := ssi_tag_len hs + 1\<rparr>)
          else (True, hs)
      | HTTP_SSI_STATE_END \<Rightarrow>
          (let k = usub (usub (ssi_tag_buff_ptr hs) start_len) (ssi_tag_len hs) in
           if k < end_len \<and> ch = c_at (HTTP_SSI_TAG_END c) k
           then
             (let hs1 = ssi_put ch hs in
              if ssi_tag_buff_ptr hs1 = start_len + ssi_tag_len hs1 + end_len
              then
                (let hs2 = hs1\<lparr>ssi_tag_buff :=
                                 (ssi_tag_buff hs1)(start_len + ssi_tag_len hs1 := CHR 0x00)\<rparr>;
                     hs3 = ssi_call_user env hs2
                 in (False, hs3\<lparr>ssi_state := HTTP_SSI_STATE_WAIT_BEGIN, ssi_tag_len := 0,
                                 ssi_tag_buff_ptr := 0\<rparr>))
              else (False, hs1))
           else (True, hs)))"

text \<open>
  The \<^verbatim>\<open>if (reset)\<close> part of the loop body: flush what the tag buffer holds, as far as
  the credit allows, then write the current byte if there is credit left for it and only
  then move on in the file buffer.
\<close>

definition ssi_reset :: "http_env \<Rightarrow> char \<Rightarrow> http_state_t \<Rightarrow> http_state_t" where
  "ssi_reset env ch hs =
     (let hs1 =
            (if ssi_tag_buff_ptr hs \<noteq> 0 then
               (let len = min (ssi_tag_buff_ptr hs) (conn_mem_available hs);
                    hs' = esp_conn_write env Pump (map (ssi_tag_buff hs) [0 ..< len]) False hs;
                    hs'' = hs'\<lparr>written_total := written_total hs' + len,
                               ssi_tag_buff_written := len\<rparr>
                in if len = ssi_tag_buff_ptr hs'' then hs''\<lparr>ssi_tag_buff_ptr := 0\<rparr> else hs'')
             else hs);
          hs2 =
            (if conn_mem_available hs1 \<noteq> 0 then
               (let hs' = esp_conn_write env Pump [ch] False hs1
                in hs'\<lparr>written_total := written_total hs' + 1, buff_ptr := buff_ptr hs' + 1\<rparr>)
             else hs1)
      in hs2\<lparr>ssi_state := HTTP_SSI_STATE_WAIT_BEGIN\<rparr>)"

text \<open>One round of the \<^verbatim>\<open>while\<close> loop over the file buffer \<open>b\<close>.\<close>

definition ssi_iter :: "http_env \<Rightarrow> string \<Rightarrow> http_state_t \<Rightarrow> http_state_t" where
  "ssi_iter env b hs =
     (let ch = b ! buff_ptr hs in
      case ssi_switch env ch hs of
        (True, hs1) \<Rightarrow> ssi_reset env ch hs1
      | (False, hs1) \<Rightarrow> hs1\<lparr>buff_ptr := buff_ptr hs1 + 1\<rparr>)"

text \<open>
  The loop makes progress in every round: a round either moves on in the file buffer
  or leaves no transmit credit, which ends the loop.
\<close>

lemma ssi_call_user_frame:
  "buff_len (ssi_call_user env hs) = buff_len hs \<and> buff_ptr (ssi_call_user env hs) = buff_ptr hs"
proof -
  have "buff_len (fold (esp_http_server_write env) ds hs) = buff_len hs
      \<and> buff_ptr (fold (esp_http_server_write env) ds hs) = buff_ptr hs" for ds
    by (induction ds arbitrary: hs)
      (simp_all add: esp_http_server_write_def esp_conn_write_def Let_def)
  then show ?thesis
    by (simp add: ssi_call_user_def split: option.splits)
qed

lemma ssi_switch_frame:
  assumes "ssi_switch env ch hs = (r, hs1)"
  shows "buff_len hs1 = buff_len hs \<and> buff_ptr hs1 = buff_ptr hs"
  using assms
  by (auto simp: ssi_switch_def Let_def ssi_put_def ssi_call_user_frame
      split: http_ssi_state_t.splits if_splits)

lemma ssi_reset_progress:
  "buff_len (ssi_reset env ch hs) = buff_len hs
   \<and> (buff_ptr (ssi_reset env ch hs) = Suc (buff_ptr hs)
      \<or> (buff_ptr (ssi_reset env ch hs) = buff_ptr hs \<and> conn_mem_available (ssi_reset env ch hs) = 0))"
  by (simp add: ssi_reset_def Let_def esp_conn_write_def)

lemma ssi_iter_progress:
  "buff_len (ssi_iter env b hs) = buff_len hs
   \<and> (buff_ptr (ssi_iter env b hs) = Suc (buff_ptr hs)
      \<or> (buff_ptr (ssi_iter env b hs) = buff_ptr hs \<and> conn_mem_available (ssi_iter env b hs) = 0))"
proof (cases "ssi_switch env (b ! buff_ptr hs) hs")
  case (Pair r hs1)
  from ssi_switch_frame [OF Pair] have f: "buff_len hs1 = buff_len hs" "buff_ptr hs1 = buff_ptr hs"
    by simp_all
  show ?thesis
  proof (cases r)
    case True
    with Pair f ssi_reset_progress [of env "b ! buff_ptr hs" hs1] show ?thesis
      by (simp add: ssi_iter_def)
  next
    case False
    with Pair f show ?thesis
      by (simp add: ssi_iter_def)
  qed
qed

text \<open>
  The \<^verbatim>\<open>while\<close> loop of \<^verbatim>\<open>send_response_ssi\<close> over the file buffer \<open>b\<close>.
\<close>

function ssi_loop :: "http_env \<Rightarrow> string \<Rightarrow> http_state_t \<Rightarrow> http_state_t" where
  "ssi_loop env b hs =
     (if buff_ptr hs < buff_len hs \<and> conn_mem_available hs \<noteq> 0
      then ssi_loop env b (ssi_iter env b hs) else hs)"
  by pat_completeness auto
termination
proof (relation "measure (\<lambda>(env, b, hs).
          if buff_ptr hs < buff_len hs \<and> conn_mem_available hs \<noteq> 0
          then Suc (buff_len hs - buff_ptr hs) else 0)")
  show "wf (measure (\<lambda>(env, b, hs).
          if buff_ptr hs < buff_len hs \<and> conn_mem_available hs \<noteq> 0
          then Suc (buff_len hs - buff_ptr hs) else 0))"
    by simp
next
  fix env :: http_env and b :: string and hs :: http_state_t
  assume "buff_ptr hs < buff_len hs \<and> conn_mem_available hs \<noteq> 0"
  with ssi_iter_progress [of env b hs]
  show "((env, b, ssi_iter env b hs), (env, b, hs)) \<in> measure (\<lambda>(env, b, hs).
          if buff_ptr hs < buff_len hs \<and> conn_mem_available hs \<noteq> 0
          then Suc (buff_len hs - buff_ptr hs) else 0)"
    by auto
qed

declare ssi_loop.simps [simp del]

text \<open>
  \<^verbatim>\<open>send_response_ssi\<close>: ask for the credit, send what an earlier flush of the tag
  buffer left over, read more of the file if the buffer is used up, run the loop, and
  flush.
\<close>

definition ssi_send_leftover :: "http_env \<Rightarrow> http_state_t \<Rightarrow> http_state_t" where
  "ssi_send_leftover env hs =
     (if ssi_tag_buff_written hs < ssi_tag_buff_ptr hs then
        (let len = min (ssi_tag_buff_ptr hs - ssi_tag_buff_written hs) (conn_mem_available hs) in
         if len \<noteq> 0 then
           (let hs1 = esp_conn_write env Pump
                        (map (ssi_tag_buff hs)
                           [ssi_tag_buff_written hs ..< ssi_tag_buff_written hs + len])
                        False hs;
                hs2 = hs1\<lparr>written_total := written_total hs1 + len,
                          ssi_tag_buff_written := ssi_tag_buff_written hs1 + len\<rparr>
            in if ssi_tag_buff_written hs2 = ssi_tag_buff_ptr hs2
               then hs2\<lparr>ssi_tag_buff_ptr := 0\<rparr> else hs2)
         else hs)
      else hs)"

definition send_response_ssi :: "http_env \<Rightarrow> http_state_t \<Rightarrow> http_state_t" where
  "send_response_ssi env hs =
     (let hs1 = esp_conn_write env Pump [] False hs;
          hs2 = ssi_send_leftover env hs1;
          hs3 = (if buff hs2 = None \<or> buff_ptr hs2 = buff_len hs2
                 then read_resp_file env hs2 else hs2);
          hs4 = (case buff hs3 of None \<Rightarrow> hs3 | Some b \<Rightarrow> ssi_loop env b hs3)
      in esp_conn_write env Pump [] True hs4)"

subsection \<open>Sending without SSI processing, and the response pump\<close>

definition send_response_no_ssi :: "http_env \<Rightarrow> http_state_t \<Rightarrow> http_state_t" where
  "send_response_no_ssi env hs =
     (let hs1 = (if buff hs = None \<or> written_total hs = sent_total hs
                 then read_resp_file env hs else hs)
      in case buff hs1 of
           None \<Rightarrow> hs1
         | Some b \<Rightarrow>
             (case esp_conn_send env (take (buff_len hs1) b) hs1 of
                (r, hs2) \<Rightarrow>
                  if r = espOK then hs2\<lparr>written_total := written_total hs2 + buff_len hs2\<rparr>
                  else hs2))"

definition send_response :: "http_env \<Rightarrow> http_state_t \<Rightarrow> http_state_t" where
  "send_response env hs =
     (if \<not> process_resp hs \<or> (written_total hs \<noteq> 0 \<and> written_total hs \<noteq> sent_total hs)
      then hs
      else
        (let (close, hs1) =
               (if resp_file_opened hs then
                  (let hs' = (if is_ssi hs then send_response_ssi env hs
                              else send_response_no_ssi env hs)
                   in (buff hs' = None, hs'))
                else
                  (True,
                   if HTTP_USE_METHOD_NOTALLOWED_RESP (cfg env)
                      \<and> req_method hs = HTTP_METHOD_NOTALLOWED
                   then snd (esp_conn_send env (http_data_method_not_allowed (cfg env)) hs)
                   else hs))
         in if close then esp_conn_close hs1 else hs1))"

subsection \<open>Receiving a request\<close>

text \<open>
  A decimal digit, as the tests \<^verbatim>\<open>ch >= '0' && ch <= '9'\<close> and the value
  \<^verbatim>\<open>ch - '0'\<close> have it.
\<close>

definition is_digit :: "char \<Rightarrow> bool" where
  "is_digit ch = (48 \<le> (of_char ch :: nat) \<and> (of_char ch :: nat) \<le> 57)"

definition digit_val :: "char \<Rightarrow> nat" where
  "digit_val ch = of_char ch - 48"

text \<open>
  The digit loop of the content length: \<open>ch\<close> is the byte last fetched, \<open>pos\<close> its
  position, \<open>cl\<close> the value so far. The loop ends at the first byte that is not a digit
  or when the next position lies outside the chain.
\<close>

function parse_digits :: "string \<Rightarrow> nat \<Rightarrow> char \<Rightarrow> nat \<Rightarrow> nat" where
  "parse_digits pb pos ch cl =
     (if is_digit ch then
        (let cl' = 10 * cl + digit_val ch in
         case esp_pbuf_get_at pb (pos + 1) of
           None \<Rightarrow> cl'
         | Some ch' \<Rightarrow> parse_digits pb (pos + 1) ch' cl')
      else cl)"
  by pat_completeness auto
termination
  by (relation "measure (\<lambda>(pb, pos, ch, cl). length pb - pos)")
    (auto simp: esp_pbuf_get_at_def split: if_splits)

declare parse_digits.simps [simp del]

text \<open>
  The search for the content length in the received request: either spelling of the
  header name, fifteen characters to skip, one optional space, then the digits. A byte
  variable that no read has filled yet holds the indeterminate value.
\<close>

definition parse_content_length :: "http_env \<Rightarrow> string \<Rightarrow> nat" where
  "parse_content_length env pb =
     (case (case esp_pbuf_strfind pb ''Content-Length:'' 0 of
              Some i \<Rightarrow> Some i
            | None \<Rightarrow> esp_pbuf_strfind pb ''content-length:'' 0) of
        None \<Rightarrow> 0
      | Some pos0 \<Rightarrow>
          (let pos1 = pos0 + 15;
               (ch1, pos2) = (case esp_pbuf_get_at pb pos1 of
                                Some ch \<Rightarrow> (ch, if ch = CHR '' '' then pos1 + 1 else pos1)
                              | None \<Rightarrow> (uninit_ch env, pos1));
               ch2 = (case esp_pbuf_get_at pb pos2 of Some ch \<Rightarrow> ch | None \<Rightarrow> ch1)
           in parse_digits pb pos2 ch2 0))"

text \<open>
  \<^verbatim>\<open>http_post_send_to_user\<close>: the user's data callback receives the chain from the
  given offset on, provided the callback is registered and the offset lies inside the
  chain.
\<close>

definition http_post_send_to_user :: "http_env \<Rightarrow> string \<Rightarrow> nat \<Rightarrow> http_state_t \<Rightarrow> http_state_t" where
  "http_post_send_to_user env pb offset hs =
     (case hi env of
        None \<Rightarrow> hs
      | Some h \<Rightarrow>
          if \<not> post_data_fn h then hs
          else if offset < length pb
          then hs\<lparr>user_calls := user_calls hs @ [Post_data (drop offset pb)]\<rparr>
          else hs)"

definition call_post_start :: "http_env \<Rightarrow> http_state_t \<Rightarrow> http_state_t" where
  "call_post_start env hs =
     (case hi env of
        None \<Rightarrow> hs
      | Some h \<Rightarrow>
          if post_start_fn h
          then hs\<lparr>user_calls := user_calls hs @ [Post_start (http_uri hs) (content_length hs)]\<rparr>
          else hs)"

definition call_post_end :: "http_env \<Rightarrow> http_state_t \<Rightarrow> http_state_t" where
  "call_post_end env hs =
     (case hi env of
        None \<Rightarrow> hs
      | Some h \<Rightarrow>
          if post_end_fn h then hs\<lparr>user_calls := user_calls hs @ [Post_end]\<rparr> else hs)"

text \<open>
  What \<^verbatim>\<open>http_evt_cb\<close> does once the end of the headers has been found at \<open>pos\<close> in
  the request chain \<open>pb\<close>: parse the URI, classify the method, start the POST
  processing, and open the response file.
\<close>

definition http_headers_done :: "http_env \<Rightarrow> string \<Rightarrow> nat \<Rightarrow> http_state_t \<Rightarrow> http_state_t" where
  "http_headers_done env pb pos hs0 =
     (let hs1 = hs0\<lparr>headers_received := True\<rparr>;
          (r, uri) = http_parse_uri (cfg env) pb (http_uri hs1);
          hs2 = hs1\<lparr>http_uri := uri\<rparr>;
          http_uri_parsed = (r = espOK);
          hs3 =
            (if HTTP_SUPPORT_POST (cfg env) \<and> esp_pbuf_strcmp_eq pb ''POST '' 0 then
               (let hsa = hs2\<lparr>req_method := HTTP_METHOD_POST\<rparr>;
                    data_pos = pos + 4;
                    hsb = hsa\<lparr>content_length := parse_content_length env pb\<rparr>
                in if content_length hsb \<noteq> 0 then
                     (let hsc = call_post_start env hsb;
                          pbuf_total_len = length pb
                      in if usub pbuf_total_len data_pos > 0 then
                           (let hsd = hsc\<lparr>content_received := usub pbuf_total_len data_pos\<rparr>;
                                hse = http_post_send_to_user env pb data_pos hsd
                            in if content_received hse \<ge> content_length hse
                               then call_post_end env (hse\<lparr>process_resp := True\<rparr>)
                               else hse)
                         else hsc)
                   else hsb\<lparr>process_resp := True\<rparr>)
             else if esp_pbuf_strcmp_eq pb ''GET '' 0
             then hs2\<lparr>req_method := HTTP_METHOD_GET, process_resp := True\<rparr>
             else hs2\<lparr>req_method := HTTP_METHOD_NOTALLOWED, process_resp := True\<rparr>)
      in if http_uri_parsed \<and> req_method hs3 \<noteq> HTTP_METHOD_NOTALLOWED
         then http_get_file_from_uri env hs3 else hs3)"

text \<open>The events the server reacts to; every other event type is \<open>ESP_CB_OTHER\<close>.\<close>

datatype esp_cb_t =
    ESP_CB_CONN_ACTIVE
  | ESP_CB_CONN_DATA_RECV string
  | ESP_CB_CONN_DATA_SENT nat
  | ESP_CB_CONN_DATA_SEND_ERR
  | ESP_CB_CONN_CLOSED
  | ESP_CB_CONN_POLL
  | ESP_CB_OTHER

definition evt_data_recv :: "http_env \<Rightarrow> string \<Rightarrow> http_state_t \<Rightarrow> http_state_t" where
  "evt_data_recv env pkt hs =
     (let hs1 =
            (if \<not> headers_received hs then
               (let pb = (case hs_p hs of None \<Rightarrow> pkt | Some q \<Rightarrow> q @ pkt);
                    hsa = hs\<lparr>hs_p := Some pb\<rparr>
                in case esp_pbuf_strfind pb (CRLF @ CRLF) 0 of
                     Some pos \<Rightarrow> http_headers_done env pb pos hsa
                   | None \<Rightarrow> hsa)
             else if req_method hs = HTTP_METHOD_POST then
               (if content_received hs < content_length hs then
                  (let tot_len = length pkt;
                       hsa = hs\<lparr>content_received := content_received hs + tot_len\<rparr>;
                       hsb = http_post_send_to_user env pkt 0 hsa
                   in if content_received hsb \<ge> content_length hsb
                      then call_post_end env (hsb\<lparr>process_resp := True\<rparr>)
                      else hsb)
                else hs)
             else hs)
      in if process_resp hs1 then send_response env hs1 else hs1)"

definition evt_closed :: "http_env \<Rightarrow> http_state_t \<Rightarrow> http_state_t" where
  "evt_closed env hs =
     (let hs1 = (if req_method hs = HTTP_METHOD_POST \<and> content_received hs < content_length hs
                 then call_post_end env hs else hs);
          hs2 = hs1\<lparr>hs_p := None\<rparr>;
          hs3 = (if resp_file_opened hs2
                 then hs2\<lparr>buff := (if is_static (resp_file hs2) then buff hs2 else None),
                          resp_file_opened := False\<rparr>
                 else hs2)
      in hs3\<lparr>hs_valid := False\<rparr>)"

text \<open>
  \<^verbatim>\<open>http_evt_cb\<close>. A connection without a state is closed on every event that needs
  one; a send error closes the connection as well.
\<close>

definition http_evt_cb :: "http_env \<Rightarrow> esp_cb_t \<Rightarrow> http_state_t \<Rightarrow> http_state_t" where
  "http_evt_cb env cb hs =
     (case cb of
        ESP_CB_CONN_ACTIVE \<Rightarrow>
          if hs_alloc_ok env then hs_calloc hs else esp_conn_close (hs\<lparr>hs_valid := False\<rparr>)
      | ESP_CB_CONN_DATA_RECV pkt \<Rightarrow>
          if hs_valid hs then evt_data_recv env pkt hs else esp_conn_close hs
      | ESP_CB_CONN_DATA_SENT n \<Rightarrow>
          if hs_valid hs then send_response env (hs\<lparr>sent_total := sent_total hs + n\<rparr>)
          else esp_conn_close hs
      | ESP_CB_CONN_DATA_SEND_ERR \<Rightarrow> esp_conn_close hs
      | ESP_CB_CONN_CLOSED \<Rightarrow> if hs_valid hs then evt_closed env hs else hs
      | ESP_CB_CONN_POLL \<Rightarrow> if hs_valid hs then send_response env hs else esp_conn_close hs
      | ESP_CB_OTHER \<Rightarrow> hs)"


subsection \<open>Observations\<close>

text \<open>The bytes handed to the user's POST data callback, and the bytes written to the connection.\<close>

fun post_data_of :: "user_call list \<Rightarrow> string" where
  "post_data_of [] = []"
| "post_data_of (Post_data d # cs) = d @ post_data_of cs"
| "post_data_of (c # cs) = post_data_of cs"

fun written_bytes :: "conn_call list \<Rightarrow> string" where
  "written_bytes [] = []"
| "written_bytes (Conn_write who d fl # cs) = d @ written_bytes cs"
| "written_bytes (c # cs) = written_bytes cs"

subsection \<open>A concrete server used in the examples\<close>

definition cfg_ex :: http_cfg where
  "cfg_ex = \<lparr>HTTP_MAX_URI_LEN = 256, HTTP_MAX_PARAMS = 16, HTTP_SSI_TAG_START = ''<!--#'',
              HTTP_SSI_TAG_END = ''-->'', HTTP_SSI_TAG_MAX_LEN = 10,
              ESP_CFG_CONN_MAX_DATA_LEN = 1460, HTTP_SUPPORT_POST = True,
              HTTP_USE_METHOD_NOTALLOWED_RESP = True\<rparr>"

definition hi_ex :: http_init_t where
  "hi_ex = \<lparr>cgi = None, post_start_fn = True, post_data_fn = True, post_end_fn = True,
             ssi_fn = Some (\<lambda>name. [''REPLACED''])\<rparr>"

definition file_of :: "bool \<Rightarrow> string \<Rightarrow> http_fs_file_t" where
  "file_of static d = \<lparr>file_data = d, fptr = 0, is_static = static\<rparr>"

definition only_file :: "string \<Rightarrow> string \<Rightarrow> string \<Rightarrow> http_fs_file_t option" where
  "only_file path d q = (if q = path then Some (file_of False d) else None)"

text \<open>
  The surroundings of the examples: a file provider \<open>fs\<close>, a heap that grants the
  allocations \<open>heap\<close> allows, and a connection that reports the transmit credit
  \<open>credit\<close>. \<open>credit_after_query n\<close> is a connection that offers \<open>n\<close> bytes when asked
  and nothing more once data has been written.
\<close>

definition env_ex ::
  "(string \<Rightarrow> http_fs_file_t option) \<Rightarrow> (nat \<Rightarrow> bool) \<Rightarrow> (conn_call list \<Rightarrow> nat) \<Rightarrow> http_env" where
  "env_ex fs heap credit =
     \<lparr>cfg = cfg_ex, hi = Some hi_ex, fs_open = fs, mem_alloc = heap,
      conn_credit = credit, conn_send_res = (\<lambda>cs. espOK),
      hs_alloc_ok = True, uninit_ch = CHR 0x00\<rparr>"


text \<open>A connection that has just become active: nothing called yet, a zeroed state.\<close>

definition hs_init :: http_state_t where
  "hs_init =
     \<lparr> hs_valid = True, conn_calls = [], user_calls = [],
       http_uri = [], hs_p = None, headers_received = False,
       req_method = HTTP_METHOD_NOTALLOWED, content_length = 0, content_received = 0,
       resp_file = file_zero, resp_file_opened = False, buff = None, buff_len = 0,
       buff_ptr = 0, conn_mem_available = 0, written_total = 0, sent_total = 0,
       process_resp = False, is_ssi = False, ssi_state = HTTP_SSI_STATE_WAIT_BEGIN,
       ssi_tag_buff = (\<lambda>i. CHR 0x00), ssi_tag_buff_ptr = 0, ssi_tag_buff_written = 0,
       ssi_tag_len = 0 \<rparr>"

text \<open>The same connection with a response file opened and ready to be sent.\<close>

definition hs_with_file :: "bool \<Rightarrow> http_fs_file_t \<Rightarrow> http_state_t" where
  "hs_with_file ssi f =
     hs_init\<lparr>headers_received := True, req_method := HTTP_METHOD_GET, process_resp := True,
             resp_file := f, resp_file_opened := True, is_ssi := ssi\<rparr>"

subsection \<open>Writes and the transmit credit\<close>





subsection \<open>The SSI scanner as a function of the file bytes\<close>











subsection \<open>The POST side of a connection\<close>




section \<open>Properties of the command API\<close>

subsection \<open>What one API call does\<close>

lemma api_call_nonblocking:
  "api_call env fill 0 e =
     (if alloc_ok env \<and> length (mbox_producer e) < mbox_producer_size e
      then (espOK, e\<lparr>mbox_producer := mbox_producer e @ [queued_msg fill 0],
                      sys_log := sys_log e @ [Mbox_putnow]\<rparr>)
      else if alloc_ok env then (espERR, e\<lparr>sys_log := sys_log e @ [Mbox_putnow]\<rparr>)
      else (espERR, e))"
  by (simp add: api_call_def send_msg_to_producer_queue_def esp_sys_mbox_putnow_def
      queued_msg_def Let_def)

lemma api_call_blocking:
  "blk \<noteq> 0 \<Longrightarrow> api_call env fill blk e =
     (if \<not> alloc_ok env then (espERR, e)
      else if \<not> sem_create_ok env
        then (espERR, e\<lparr>sys_log := sys_log e @ [Sem_create, Msg_free]\<rparr>)
      else ((case sem_wait_ret env of None \<Rightarrow> espERR | Some t \<Rightarrow> pipeline_res env),
            e\<lparr>mbox_producer := mbox_producer e @ [queued_msg fill blk],
              sys_log := sys_log e @ [Sem_create, Mbox_put, Sem_wait 0, Sem_delete, Msg_free]\<rparr>))"
  by (simp add: api_call_def send_msg_to_producer_queue_def esp_sys_mbox_put_def
      queued_msg_def Let_def sys_call_log_def)

text \<open>
  Claim C7. A non-blocking call (\<open>blk = 0\<close>) returns \<open>espOK\<close> exactly when its message
  was appended to the producer queue, which happens exactly when the allocation
  succeeded and the queue had room; in every other case it returns \<open>espERR\<close> and the
  queue is unchanged. A blocking call whose message and semaphore could be created
  posts the message, waits on the semaphore, and once the wait is satisfied returns the
  result code that the pipeline stored in the message.
\<close>

theorem api_call_result:
  assumes "api_call env fill blk e = (r, e')"
  shows "(blk = 0 \<longrightarrow>
            (r = espOK) = (mbox_producer e' = mbox_producer e @ [queued_msg fill 0])
          \<and> (r \<noteq> espOK \<longrightarrow> r = espERR \<and> mbox_producer e' = mbox_producer e)
          \<and> (r = espOK) = (alloc_ok env \<and> length (mbox_producer e) < mbox_producer_size e))
       \<and> (blk \<noteq> 0 \<and> alloc_ok env \<and> sem_create_ok env \<longrightarrow>
            mbox_producer e' = mbox_producer e @ [queued_msg fill blk]
          \<and> sem_waits (sys_log e') = sem_waits (sys_log e) @ [0]
          \<and> (sem_wait_ret env \<noteq> None \<longrightarrow> r = pipeline_res env))"
proof (cases "blk = 0")
  case True
  with assms show ?thesis
    by (auto simp: api_call_nonblocking split: if_splits)
next
  case False
  with assms show ?thesis
    by (auto simp: api_call_blocking sem_waits_def split: if_splits option.splits)
qed

theorem api_call_result_witness:
  "fst (esp_reset env_ok 0 esp_fresh) = espOK
   \<and> fst (esp_reset env_ok 0 (esp_fresh\<lparr>mbox_producer_size := 0\<rparr>)) = espERR
   \<and> fst (esp_reset (env_ok\<lparr>pipeline_res := espTIMEOUT\<rparr>) 1 esp_fresh) = espTIMEOUT"
proof -
  let ?f = "\<lambda>m. m\<lparr>cmd_def := ESP_CMD_RESET\<rparr>"
  have a: "alloc_ok env_ok" "sem_create_ok env_ok" "sem_wait_ret env_ok \<noteq> None"
    by (simp_all add: env_ok_def)
  have "fst (api_call env_ok ?f 0 esp_fresh) = espOK"
    using api_call_result [where env = env_ok and fill = ?f and blk = 0 and e = esp_fresh,
        OF surjective_pairing] a
    by (simp add: esp_fresh_def)
  moreover have "fst (api_call env_ok ?f 0 (esp_fresh\<lparr>mbox_producer_size := 0\<rparr>)) = espERR"
    using api_call_result [where env = env_ok and fill = ?f and blk = 0
        and e = "esp_fresh\<lparr>mbox_producer_size := 0\<rparr>", OF surjective_pairing]
    by (auto simp: esp_fresh_def)
  moreover have "fst (api_call (env_ok\<lparr>pipeline_res := espTIMEOUT\<rparr>) ?f 1 esp_fresh) = espTIMEOUT"
    using api_call_result [where env = "env_ok\<lparr>pipeline_res := espTIMEOUT\<rparr>" and fill = ?f
        and blk = 1 and e = esp_fresh, OF surjective_pairing] a
    by simp
  ultimately show ?thesis
    by (simp add: esp_reset_def)
qed

text \<open>
  Claim C2, as the code has it. A blocking call (\<open>blk \<noteq> 0\<close>) whose message and semaphore
  could be created posts the message and then waits on the completion semaphore with
  timeout argument zero, that is without an upper bound, whatever \<open>blk\<close> is. If the wait
  nevertheless reports a timeout the caller receives \<open>espERR\<close>. The call only appends to
  the producer queue: the message it posted is still there afterwards, nothing is
  withdrawn from the pipeline.
\<close>

theorem blocking_wait_forever:
  assumes "blk \<noteq> 0" and "alloc_ok env" and "sem_create_ok env"
    and "api_call env fill blk e = (r, e')"
  shows "sys_log e' = sys_log e @ [Sem_create, Mbox_put, Sem_wait 0, Sem_delete, Msg_free]
       \<and> sem_waits (sys_log e') = sem_waits (sys_log e) @ [0]
       \<and> sem_wait_bound 0 = \<infinity>
       \<and> (sem_wait_ret env = None \<longrightarrow> r = espERR)
       \<and> mbox_producer e' = mbox_producer e @ [queued_msg fill blk]"
  using assms by (auto simp: api_call_blocking sem_waits_def sem_wait_bound_def)

theorem blocking_wait_forever_witness:
  "sys_log (snd (esp_reset env_timeout 5 esp_fresh)) =
     [Sem_create, Mbox_put, Sem_wait 0, Sem_delete, Msg_free]
   \<and> fst (esp_reset env_timeout 5 esp_fresh) = espERR
   \<and> mbox_producer (snd (esp_reset env_timeout 5 esp_fresh)) =
       [queued_msg (\<lambda>m. m\<lparr>cmd_def := ESP_CMD_RESET\<rparr>) 5]"
proof -
  let ?f = "\<lambda>m. m\<lparr>cmd_def := ESP_CMD_RESET\<rparr>"
  have a: "(5 :: 32 word) \<noteq> 0" "alloc_ok env_timeout" "sem_create_ok env_timeout"
    "sem_wait_ret env_timeout = None"
    by (simp_all add: env_timeout_def)
  show ?thesis
    using blocking_wait_forever [where env = env_timeout and fill = ?f and blk = 5
        and e = esp_fresh, OF a(1) a(2) a(3) surjective_pairing] a(4)
    by (simp add: esp_reset_def esp_fresh_def)
qed

text \<open>
  The claim as written fails: with \<open>block_time = 5\<close> the wait on the completion semaphore
  is requested with timeout zero, and the bound that stands for is not below 5.
\<close>

theorem blocking_wait_exceeds_block_time:
  "sem_waits (sys_log (snd (esp_reset env_ok 5 esp_fresh))) = [0]
   \<and> \<not> sem_wait_bound 0 \<le> enat (unat (5 :: 32 word))"
  by (simp add: esp_reset_def api_call_blocking sem_waits_def sem_wait_bound_def
      env_ok_def esp_fresh_def)

subsection \<open>Initialisation and joining an access point\<close>

lemma esp_init_queue:
  assumes "\<forall>k<5. alloc_ok (envs k)"
  shows "mbox_producer (snd (esp_init envs cb e)) =
     [queued_msg (\<lambda>m. m\<lparr>cmd_def := ESP_CMD_RESET\<rparr>) 0,
      queued_msg (\<lambda>m. m\<lparr>cmd_def := ESP_CMD_WIFI_CWMODE, msg := msg_wifi_mode ESP_MODE_STA\<rparr>) 0,
      queued_msg (\<lambda>m. m\<lparr>cmd_def := ESP_CMD_TCPIP_CIPMUX, msg := msg_tcpip_mux 1\<rparr>) 0,
      queued_msg (\<lambda>m. m\<lparr>cmd_def := ESP_CMD_TCPIP_CIPDINFO, msg := msg_tcpip_dinfo 1\<rparr>) 0,
      queued_msg (\<lambda>m. m\<lparr>cmd_def := ESP_CMD_TCPIP_CIPSTATUS\<rparr>) 0]"
proof -
  have a: "alloc_ok (envs 0)" "alloc_ok (envs (Suc 0))" "alloc_ok (envs 2)" "alloc_ok (envs 3)"
    "alloc_ok (envs 4)"
    using assms by simp_all
  show ?thesis
    by (simp add: esp_init_def Let_def esp_reset_def esp_set_wifi_mode_def esp_set_mux_def
        espi_set_dinfo_def esp_get_conns_status_def api_call_nonblocking a)
qed

text \<open>
  Claim C9. When the five allocations of \<^verbatim>\<open>esp_init\<close> succeed, the producer queue
  holds, in this order, RESET, WIFI_CWMODE, CIPMUX, CIPDINFO and CIPSTATUS; a following
  \<^verbatim>\<open>esp_sta_join("ssid", "pw", NULL, 1, 1)\<close> appends WIFI_CWJAP. Served in enqueue order
  by the producer, against a modem that answers \<open>OK\<close>, the exchange on the serial line
  is the six AT units of the scenario, each answered by \<open>OK\<close> before the next is sent.
\<close>

theorem init_join_stream:
  assumes "\<forall>k<5. alloc_ok (envs k)" and "alloc_ok envj" and "sem_create_ok envj"
  shows "map cmd (mbox_producer (snd (esp_init envs cb e))) =
          [ESP_CMD_RESET, ESP_CMD_WIFI_CWMODE, ESP_CMD_TCPIP_CIPMUX, ESP_CMD_TCPIP_CIPDINFO,
           ESP_CMD_TCPIP_CIPSTATUS]
       \<and> map cmd (mbox_producer (snd (esp_sta_join envj ''ssid'' (Some ''pw'') None 1 1
            (snd (esp_init envs cb e))))) =
          [ESP_CMD_RESET, ESP_CMD_WIFI_CWMODE, ESP_CMD_TCPIP_CIPMUX, ESP_CMD_TCPIP_CIPDINFO,
           ESP_CMD_TCPIP_CIPSTATUS, ESP_CMD_WIFI_CWJAP]
       \<and> producer_run (\<lambda>k. ''OK'') 0
          (mbox_producer (snd (esp_sta_join envj ''ssid'' (Some ''pw'') None 1 1
            (snd (esp_init envs cb e))))) =
          Some [To_modem (''AT+RST'' @ CRLF), From_modem ''OK'',
                To_modem (''AT+CWMODE_CUR=1'' @ CRLF), From_modem ''OK'',
                To_modem (''AT+CIPMUX=1'' @ CRLF), From_modem ''OK'',
                To_modem (''AT+CIPDINFO=1'' @ CRLF), From_modem ''OK'',
                To_modem (''AT+CIPSTATUS'' @ CRLF), From_modem ''OK'',
                To_modem (''AT+CWJAP_CUR='' @ [CHR 0x22] @ ''ssid'' @ [CHR 0x22] @ '',''
                          @ [CHR 0x22] @ ''pw'' @ [CHR 0x22] @ CRLF), From_modem ''OK'']"
  using assms(2,3)
  by (simp add: esp_sta_join_def api_call_blocking esp_init_queue [OF assms(1)]
      queued_msg_def msg_zero_def at_command_def)

theorem init_join_stream_witness:
  "map cmd (mbox_producer (snd (esp_sta_join env_ok ''ssid'' (Some ''pw'') None 1 1
      (snd (esp_init (\<lambda>k. env_ok) None esp_fresh))))) =
    [ESP_CMD_RESET, ESP_CMD_WIFI_CWMODE, ESP_CMD_TCPIP_CIPMUX, ESP_CMD_TCPIP_CIPDINFO,
     ESP_CMD_TCPIP_CIPSTATUS, ESP_CMD_WIFI_CWJAP]"
proof -
  have a: "\<forall>k<5. alloc_ok ((\<lambda>k. env_ok) k)" "alloc_ok env_ok" "sem_create_ok env_ok"
    by (simp_all add: env_ok_def)
  from init_join_stream [OF a, of None esp_fresh] show ?thesis
    by blast
qed

subsection \<open>Opening a connection\<close>



section \<open>Properties of the HTTP server\<close>

subsection \<open>The index file table\<close>

text \<open>
  Claim C1 does not hold for the code. For the request URI \<^verbatim>\<open>/\<close> a provider that only
  has \<^verbatim>\<open>/index.shtm\<close>, or only \<^verbatim>\<open>/index.ssi\<close>, is never asked for that file: no
  response file is opened. What the table holds instead is the joined name
  \<^verbatim>\<open>/index.shtm/index.ssi\<close>. The first, fourth and fifth name are probed as claimed.
\<close>

theorem index_table_misses_shtm_and_ssi:
  "\<not> resp_file_opened (http_get_file_from_uri
        (env_ex (only_file ''/index.shtm'' ''x'') (\<lambda>n. True) (\<lambda>cs. 100)) (hs_init\<lparr>http_uri := ''/''\<rparr>))
   \<and> \<not> resp_file_opened (http_get_file_from_uri
        (env_ex (only_file ''/index.ssi'' ''x'') (\<lambda>n. True) (\<lambda>cs. 100)) (hs_init\<lparr>http_uri := ''/''\<rparr>))
   \<and> resp_file_opened (http_get_file_from_uri
        (env_ex (only_file ''/index.shtm/index.ssi'' ''x'') (\<lambda>n. True) (\<lambda>cs. 100))
        (hs_init\<lparr>http_uri := ''/''\<rparr>))
   \<and> resp_file_opened (http_get_file_from_uri
        (env_ex (only_file ''/index.html'' ''x'') (\<lambda>n. True) (\<lambda>cs. 100)) (hs_init\<lparr>http_uri := ''/''\<rparr>))
   \<and> length http_index_filenames = 4"
  by (simp add: http_get_file_from_uri_def env_ex_def only_file_def hs_init_def
      http_index_filenames_def http_404_uris_def http_fs_data_open_file_def Let_def
      http_get_params_def hi_ex_def)

subsection \<open>Requests with a method other than GET and POST\<close>

lemma headers_done_notallowed:
  assumes "\<not> (HTTP_SUPPORT_POST (cfg env) \<and> esp_pbuf_strcmp_eq pb ''POST '' 0)"
    and "\<not> esp_pbuf_strcmp_eq pb ''GET '' 0"
  shows "http_headers_done env pb pos hs =
     hs\<lparr>headers_received := True, http_uri := snd (http_parse_uri (cfg env) pb (http_uri hs)),
        req_method := HTTP_METHOD_NOTALLOWED, process_resp := True\<rparr>"
  using assms by (auto simp: http_headers_done_def Let_def split: prod.splits)

text \<open>
  Claim C6. Let a connection have a state that still waits for the end of the headers,
  with no response file opened and nothing written yet (as it is from the moment the
  connection became active). When a packet completes the headers and the request
  starts neither with \<^verbatim>\<open>GET\<close> nor, where POST is supported, with \<^verbatim>\<open>POST\<close>, the
  server records the method \<open>HTTP_METHOD_NOTALLOWED\<close>, hands the fixed 405 response to
  the connection and then closes it. The response's \<^verbatim>\<open>Allow\<close> header lists GET, and
  POST when POST is supported. The 405 response is compiled in by
  \<^verbatim>\<open>HTTP_USE_METHOD_NOTALLOWED_RESP\<close>.
\<close>

theorem method_not_allowed_response:
  assumes "hs_valid hs" and "\<not> headers_received hs" and "\<not> resp_file_opened hs"
    and "written_total hs = 0"
    and "esp_pbuf_strfind (case hs_p hs of None \<Rightarrow> pkt | Some q \<Rightarrow> q @ pkt) (CRLF @ CRLF) 0
           = Some pos"
    and "\<not> esp_pbuf_strcmp_eq (case hs_p hs of None \<Rightarrow> pkt | Some q \<Rightarrow> q @ pkt) ''GET '' 0"
    and "\<not> (HTTP_SUPPORT_POST (cfg env)
            \<and> esp_pbuf_strcmp_eq (case hs_p hs of None \<Rightarrow> pkt | Some q \<Rightarrow> q @ pkt) ''POST '' 0)"
    and "HTTP_USE_METHOD_NOTALLOWED_RESP (cfg env)"
  shows "req_method (http_evt_cb env (ESP_CB_CONN_DATA_RECV pkt) hs) = HTTP_METHOD_NOTALLOWED
       \<and> conn_calls (http_evt_cb env (ESP_CB_CONN_DATA_RECV pkt) hs) =
           conn_calls hs @ [Conn_send (http_data_method_not_allowed (cfg env)), Conn_close]
       \<and> http_data_method_not_allowed (cfg env) =
           ''HTTP/1.1 405 Method Not Allowed'' @ CRLF @ ''Connection: close'' @ CRLF
           @ ''Allow: GET'' @ (if HTTP_SUPPORT_POST (cfg env) then '', POST'' else [])
           @ CRLF @ CRLF"
  using assms
  by (simp add: http_evt_cb_def evt_data_recv_def Let_def headers_done_notallowed
      send_response_def esp_conn_send_def esp_conn_close_def http_data_method_not_allowed_def)

theorem method_not_allowed_response_witness:
  "conn_calls (http_evt_cb (env_ex (\<lambda>q. None) (\<lambda>n. True) (\<lambda>cs. 100))
      (ESP_CB_CONN_DATA_RECV (''PUT / HTTP/1.1'' @ CRLF @ CRLF)) hs_init) =
     [Conn_send (''HTTP/1.1 405 Method Not Allowed'' @ CRLF @ ''Connection: close'' @ CRLF
                 @ ''Allow: GET, POST'' @ CRLF @ CRLF), Conn_close]"
proof -
  let ?env = "env_ex (\<lambda>q. None) (\<lambda>n. True) (\<lambda>cs. 100)"
  let ?pkt = "''PUT / HTTP/1.1'' @ CRLF @ CRLF"
  have a: "hs_valid hs_init" "\<not> headers_received hs_init" "\<not> resp_file_opened hs_init"
    "written_total hs_init = 0"
    by (simp_all add: hs_init_def)
  have b: "esp_pbuf_strfind (case hs_p hs_init of None \<Rightarrow> ?pkt | Some q \<Rightarrow> q @ ?pkt)
             (CRLF @ CRLF) 0 = Some 14"
    by (simp add: hs_init_def esp_pbuf_strfind_def CRLF_def)
  have c: "\<not> esp_pbuf_strcmp_eq (case hs_p hs_init of None \<Rightarrow> ?pkt | Some q \<Rightarrow> q @ ?pkt) ''GET '' 0"
    "\<not> (HTTP_SUPPORT_POST (cfg ?env)
        \<and> esp_pbuf_strcmp_eq (case hs_p hs_init of None \<Rightarrow> ?pkt | Some q \<Rightarrow> q @ ?pkt) ''POST '' 0)"
    "HTTP_USE_METHOD_NOTALLOWED_RESP (cfg ?env)"
    by (simp_all add: hs_init_def esp_pbuf_strcmp_eq_def env_ex_def cfg_ex_def)
  from method_not_allowed_response [OF a b c] show ?thesis
    by (simp add: hs_init_def env_ex_def cfg_ex_def)
qed

subsection \<open>The read buffer of a dynamic file\<close>

lemma halving_sizes_bound: "n \<in> set (halving_sizes len) \<Longrightarrow> n = len \<or> 64 < n"
proof (induction len rule: halving_sizes.induct)
  case (1 len)
  show ?case
  proof (cases "len div 2 > 64")
    case True
    from "1.prems" have "n = len \<or> n \<in> set (halving_sizes (len div 2))"
      using halving_sizes.simps [of len] True by simp
    with "1.IH" [OF True] True show ?thesis by auto
  next
    case False
    with "1.prems" show ?thesis
      using halving_sizes.simps [of len] by simp
  qed
qed

lemma halving_sizes_le: "n \<in> set (halving_sizes len) \<Longrightarrow> n \<le> len"
proof (induction len rule: halving_sizes.induct)
  case (1 len)
  show ?case
  proof (cases "len div 2 > 64")
    case True
    from "1.prems" have "n = len \<or> n \<in> set (halving_sizes (len div 2))"
      using halving_sizes.simps [of len] True by simp
    with "1.IH" [OF True] show ?thesis by auto
  next
    case False
    with "1.prems" show ?thesis
      using halving_sizes.simps [of len] by simp
  qed
qed

lemma halving_sizes_ne: "halving_sizes len \<noteq> []"
  using halving_sizes.simps [of len] by simp

lemma halving_sizes_hd: "hd (halving_sizes len) = len"
  using halving_sizes.simps [of len] by simp

lemma halving_sizes_tl: "n \<in> set (tl (halving_sizes len)) \<Longrightarrow> 64 < n"
proof -
  assume a: "n \<in> set (tl (halving_sizes len))"
  show ?thesis
  proof (cases "len div 2 > 64")
    case True
    with a have "n \<in> set (halving_sizes (len div 2))"
      using halving_sizes.simps [of len] by simp
    with halving_sizes_bound [of n "len div 2"] True show ?thesis by auto
  next
    case False
    with a show ?thesis using halving_sizes.simps [of len] by simp
  qed
qed

lemma halving_sizes_step:
  "Suc i < length (halving_sizes len) \<Longrightarrow>
     halving_sizes len ! Suc i = halving_sizes len ! i div 2"
proof (induction len arbitrary: i rule: halving_sizes.induct)
  case (1 len)
  show ?case
  proof (cases "len div 2 > 64")
    case True
    then have u: "halving_sizes len = len # halving_sizes (len div 2)"
      using halving_sizes.simps [of len] by simp
    show ?thesis
    proof (cases i)
      case 0
      then show ?thesis
        using u halving_sizes.simps [of "len div 2"] by simp
    next
      case (Suc j)
      with "1.prems" u have "Suc j < length (halving_sizes (len div 2))" by simp
      from "1.IH" [OF True this] Suc u show ?thesis by simp
    qed
  next
    case False
    with "1.prems" show ?thesis
      using halving_sizes.simps [of len] by simp
  qed
qed

text \<open>The allocation loop takes the first size of the halving sequence that the heap grants.\<close>

lemma alloc_read_loop_find:
  "alloc_read_loop env len hs =
     (case find (mem_alloc env) (halving_sizes len) of
        None \<Rightarrow> hs\<lparr>buff_len := last (halving_sizes len), buff := None\<rparr>
      | Some n \<Rightarrow>
          (let (bytes, f) = http_fs_data_read_file (resp_file hs) n in
           if length bytes = 0 then hs\<lparr>buff_len := n, resp_file := f, buff := None\<rparr>
           else hs\<lparr>buff_len := n, resp_file := f,
                   buff := Some (bytes @ replicate (n - length bytes) (uninit_ch env))\<rparr>))"
proof (induction env len hs rule: alloc_read_loop.induct)
  case (1 env len hs)
  show ?case
  proof (cases "mem_alloc env len")
    case True
    then show ?thesis
      using alloc_read_loop.simps [of env len hs] halving_sizes.simps [of len]
      by (simp add: Let_def split: prod.splits)
  next
    case False
    show ?thesis
    proof (cases "len div 2 > 64")
      case True
      from True False "1.IH" [OF refl False refl True]
      show ?thesis
        using alloc_read_loop.simps [of env len hs] halving_sizes.simps [of len]
        by (simp add: Let_def halving_sizes_ne split: option.splits prod.splits)
    next
      case False2: False
      with False show ?thesis
        using alloc_read_loop.simps [of env len hs] halving_sizes.simps [of len]
        by (simp add: Let_def)
    qed
  qed
qed

lemma read_resp_file_dynamic:
  assumes "resp_file_opened hs" and "\<not> is_static (resp_file hs)"
    and "fptr (resp_file hs) < length (file_data (resp_file hs))"
    and "0 < ESP_CFG_CONN_MAX_DATA_LEN (cfg env)"
  shows "case find (mem_alloc env)
                (halving_sizes (min (length (file_data (resp_file hs)) - fptr (resp_file hs))
                                    (ESP_CFG_CONN_MAX_DATA_LEN (cfg env)))) of
           Some n \<Rightarrow>
             buff (read_resp_file env hs) =
               Some (take n (drop (fptr (resp_file hs)) (file_data (resp_file hs))))
             \<and> buff_len (read_resp_file env hs) = n
             \<and> fptr (resp_file (read_resp_file env hs)) = fptr (resp_file hs) + n
         | None \<Rightarrow> buff (read_resp_file env hs) = None"
proof -
  let ?rem = "length (file_data (resp_file hs)) - fptr (resp_file hs)"
  let ?s0 = "min ?rem (ESP_CFG_CONN_MAX_DATA_LEN (cfg env))"
  have s0: "0 < ?s0" using assms by simp
  show ?thesis
  proof (cases "find (mem_alloc env) (halving_sizes ?s0)")
    case None
    with assms show ?thesis
      by (simp add: read_resp_file_def http_fs_data_read_remaining_def Let_def
          alloc_read_loop_find)
  next
    case (Some n)
    then have "n \<in> set (halving_sizes ?s0)"
      by (auto simp: find_Some_iff)
    with halving_sizes_le [of n ?s0] halving_sizes_bound [of n ?s0] s0
    have n: "0 < n" "n \<le> ?rem" by auto
    with Some assms show ?thesis
      by (simp add: read_resp_file_def http_fs_data_read_remaining_def Let_def
          alloc_read_loop_find http_fs_data_read_file_def min_def)
  qed
qed

lemma esp_conn_write_frame:
  "buff (esp_conn_write env who d fl hs) = buff hs
   \<and> buff_ptr (esp_conn_write env who d fl hs) = buff_ptr hs
   \<and> buff_len (esp_conn_write env who d fl hs) = buff_len hs
   \<and> resp_file (esp_conn_write env who d fl hs) = resp_file hs
   \<and> resp_file_opened (esp_conn_write env who d fl hs) = resp_file_opened hs"
  by (simp add: esp_conn_write_def Let_def)

lemma ssi_send_leftover_frame:
  "buff (ssi_send_leftover env hs) = buff hs
   \<and> buff_ptr (ssi_send_leftover env hs) = buff_ptr hs
   \<and> buff_len (ssi_send_leftover env hs) = buff_len hs
   \<and> resp_file (ssi_send_leftover env hs) = resp_file hs
   \<and> resp_file_opened (ssi_send_leftover env hs) = resp_file_opened hs"
  by (simp add: ssi_send_leftover_def Let_def esp_conn_write_def)

lemma send_response_no_buffer:
  assumes "process_resp hs" and "written_total hs = 0 \<or> written_total hs = sent_total hs"
    and "resp_file_opened hs"
    and "buff hs = None \<or> (written_total hs = sent_total hs \<and> buff_ptr hs = buff_len hs)"
    and "\<And>hs'. resp_file hs' = resp_file hs \<Longrightarrow> resp_file_opened hs' \<Longrightarrow>
           buff (read_resp_file env hs') = None"
  shows "last (conn_calls (send_response env hs)) = Conn_close"
proof (cases "is_ssi hs")
  case True
  let ?hs2 = "ssi_send_leftover env (esp_conn_write env Pump [] False hs)"
  have f: "resp_file ?hs2 = resp_file hs" "resp_file_opened ?hs2"
    "buff ?hs2 = buff hs" "buff_ptr ?hs2 = buff_ptr hs" "buff_len ?hs2 = buff_len hs"
    using assms(3) by (simp_all add: ssi_send_leftover_frame esp_conn_write_frame)
  have due: "buff ?hs2 = None \<or> buff_ptr ?hs2 = buff_len ?hs2"
    using assms(4) f by auto
  have "buff (read_resp_file env ?hs2) = None"
    using assms(5) [OF f(1) f(2)] .
  with due have "buff (send_response_ssi env hs) = None"
    by (simp add: send_response_ssi_def Let_def esp_conn_write_frame)
  with assms True show ?thesis
    by (auto simp: send_response_def Let_def esp_conn_close_def)
next
  case False
  have due: "buff hs = None \<or> written_total hs = sent_total hs"
    using assms(4) by auto
  have "buff (read_resp_file env hs) = None"
    using assms(5) [OF refl assms(3)] .
  with due have "send_response_no_ssi env hs = read_resp_file env hs"
    by (auto simp: send_response_no_ssi_def Let_def)
  with \<open>buff (read_resp_file env hs) = None\<close> assms False show ?thesis
    by (auto simp: send_response_def Let_def esp_conn_close_def)
qed

text \<open>
  Claim C8. For an opened file that is not static and has bytes left, with
  \<open>s0 = min remaining ESP_CFG_CONN_MAX_DATA_LEN\<close>: the sizes requested from the heap are
  \<open>halving_sizes s0\<close>, that is \<open>s0\<close> first, each further one half of the one before, and
  every one after the first above 64. \<^verbatim>\<open>read_resp_file\<close> ends with a buffer of the
  first size the heap grants, filled with the next bytes of the file; when the heap
  grants none of them it ends without a buffer. In that case \<^verbatim>\<open>send_response\<close>, when
  it is due to read the file, closes the connection.
\<close>

theorem read_buffer_halving:
  assumes "resp_file_opened hs" and "\<not> is_static (resp_file hs)"
    and "fptr (resp_file hs) < length (file_data (resp_file hs))"
    and "0 < ESP_CFG_CONN_MAX_DATA_LEN (cfg env)"
    and "s0 = min (length (file_data (resp_file hs)) - fptr (resp_file hs))
                  (ESP_CFG_CONN_MAX_DATA_LEN (cfg env))"
  shows "hd (halving_sizes s0) = s0
       \<and> (\<forall>i. Suc i < length (halving_sizes s0) \<longrightarrow>
               halving_sizes s0 ! Suc i = halving_sizes s0 ! i div 2
               \<and> 64 < halving_sizes s0 ! Suc i)
       \<and> (case find (mem_alloc env) (halving_sizes s0) of
             Some n \<Rightarrow>
               buff (read_resp_file env hs) =
                 Some (take n (drop (fptr (resp_file hs)) (file_data (resp_file hs))))
               \<and> buff_len (read_resp_file env hs) = n
           | None \<Rightarrow> buff (read_resp_file env hs) = None)
       \<and> (find (mem_alloc env) (halving_sizes s0) = None
            \<and> process_resp hs
            \<and> (written_total hs = 0 \<or> written_total hs = sent_total hs)
            \<and> (buff hs = None \<or> (written_total hs = sent_total hs \<and> buff_ptr hs = buff_len hs))
          \<longrightarrow> last (conn_calls (send_response env hs)) = Conn_close)"
proof -
  have sizes: "\<forall>i. Suc i < length (halving_sizes s0) \<longrightarrow>
               halving_sizes s0 ! Suc i = halving_sizes s0 ! i div 2
               \<and> 64 < halving_sizes s0 ! Suc i"
  proof (intro allI impI)
    fix i assume i: "Suc i < length (halving_sizes s0)"
    then have "halving_sizes s0 ! Suc i \<in> set (tl (halving_sizes s0))"
      by (metis halving_sizes_ne length_tl less_diff_conv nth_mem nth_tl Suc_eq_plus1)
    with halving_sizes_tl halving_sizes_step [OF i]
    show "halving_sizes s0 ! Suc i = halving_sizes s0 ! i div 2 \<and> 64 < halving_sizes s0 ! Suc i"
      by simp
  qed
  have rd: "case find (mem_alloc env) (halving_sizes s0) of
             Some n \<Rightarrow>
               buff (read_resp_file env hs) =
                 Some (take n (drop (fptr (resp_file hs)) (file_data (resp_file hs))))
               \<and> buff_len (read_resp_file env hs) = n
           | None \<Rightarrow> buff (read_resp_file env hs) = None"
    using read_resp_file_dynamic [OF assms(1-4)] assms(5)
    by (simp split: option.splits)
  have cl: "last (conn_calls (send_response env hs)) = Conn_close"
    if n: "find (mem_alloc env) (halving_sizes s0) = None"
      and p: "process_resp hs" "written_total hs = 0 \<or> written_total hs = sent_total hs"
        "buff hs = None \<or> (written_total hs = sent_total hs \<and> buff_ptr hs = buff_len hs)"
  proof (rule send_response_no_buffer [OF p(1) p(2) assms(1) p(3)])
    fix hs' :: http_state_t
    assume e: "resp_file hs' = resp_file hs" and o: "resp_file_opened hs'"
    from read_resp_file_dynamic [of hs' env] e o assms(2-5) n
    show "buff (read_resp_file env hs') = None"
      by simp
  qed
  have cl': "find (mem_alloc env) (halving_sizes s0) = None
            \<and> process_resp hs
            \<and> (written_total hs = 0 \<or> written_total hs = sent_total hs)
            \<and> (buff hs = None \<or> (written_total hs = sent_total hs \<and> buff_ptr hs = buff_len hs))
          \<longrightarrow> last (conn_calls (send_response env hs)) = Conn_close"
    using cl by blast
  have hd: "hd (halving_sizes s0) = s0"
    by (rule halving_sizes_hd)
  show ?thesis
    by (rule conjI [OF hd conjI [OF sizes conjI [OF rd cl']]])
qed

theorem read_buffer_halving_witness:
  "halving_sizes 300 = [300, 150, 75]
   \<and> buff_len (read_resp_file (env_ex (\<lambda>q. None) (\<lambda>n. n \<le> 100) (\<lambda>cs. 100))
        (hs_with_file False (file_of False (replicate 300 (CHR ''a''))))) = 75
   \<and> last (conn_calls (send_response (env_ex (\<lambda>q. None) (\<lambda>n. False) (\<lambda>cs. 100))
        (hs_with_file False (file_of False (replicate 300 (CHR ''a'')))))) = Conn_close"
proof -
  let ?hs = "hs_with_file False (file_of False (replicate 300 (CHR ''a'')))"
  have h: "halving_sizes 300 = [300, 150, 75]"
    by (simp add: halving_sizes.simps)
  have a: "resp_file_opened ?hs" "\<not> is_static (resp_file ?hs)"
    "fptr (resp_file ?hs) < length (file_data (resp_file ?hs))"
    "process_resp ?hs" "written_total ?hs = 0" "buff ?hs = None"
    by (simp_all add: hs_with_file_def file_of_def hs_init_def)
  have c: "0 < ESP_CFG_CONN_MAX_DATA_LEN (cfg (env_ex (\<lambda>q. None) heap (\<lambda>cs. 100)))" for heap
    by (simp add: env_ex_def cfg_ex_def)
  have s: "300 = min (length (file_data (resp_file ?hs)) - fptr (resp_file ?hs))
                  (ESP_CFG_CONN_MAX_DATA_LEN (cfg (env_ex (\<lambda>q. None) heap (\<lambda>cs. 100))))" for heap
    by (simp add: hs_with_file_def file_of_def hs_init_def env_ex_def cfg_ex_def)
  have f1: "find (mem_alloc (env_ex (\<lambda>q. None) (\<lambda>n. n \<le> 100) (\<lambda>cs. 100))) (halving_sizes 300) = Some 75"
    by (simp add: h env_ex_def)
  have f2: "find (mem_alloc (env_ex (\<lambda>q. None) (\<lambda>n. False) (\<lambda>cs. 100))) (halving_sizes 300) = None"
    by (simp add: h env_ex_def)
  from read_buffer_halving [OF a(1) a(2) a(3) c s, of "\<lambda>n. n \<le> 100"] f1
  have "buff_len (read_resp_file (env_ex (\<lambda>q. None) (\<lambda>n. n \<le> 100) (\<lambda>cs. 100)) ?hs) = 75"
    by simp
  moreover from read_buffer_halving [OF a(1) a(2) a(3) c s, of "\<lambda>n. False"] f2 a(4) a(5) a(6)
  have "last (conn_calls (send_response (env_ex (\<lambda>q. None) (\<lambda>n. False) (\<lambda>cs. 100)) ?hs)) = Conn_close"
    by simp
  ultimately show ?thesis using h by simp
qed

subsection \<open>Writes of the SSI pump and the transmit credit\<close>










lemma ssi_put_calls [simp]:
  "conn_calls (ssi_put ch hs) = conn_calls hs"
  "conn_mem_available (ssi_put ch hs) = conn_mem_available hs"
  by (simp_all add: ssi_put_def)



















subsection \<open>The output of the SSI pump\<close>

lemma written_bytes_append [simp]:
  "written_bytes (a @ b) = written_bytes a @ written_bytes b"
  by (induction a rule: written_bytes.induct) simp_all

















subsection \<open>The scanner on shaped input\<close>















subsection \<open>Receiving the body of a POST request\<close>























lemma post_data_of_append [simp]: "post_data_of (a @ b) = post_data_of a @ post_data_of b"
  by (induction a rule: post_data_of.induct) simp_all











end
